theory Spec2Isabelle
  imports
    Complex_Main
    "HOL-Library.Sublist"
    "HOL-Library.Char_ord"
    "HOL-Library.List_Lexorder"
begin

section \<open>Conventions of the embedding\<close>

text \<open>
  The usage analytics of the backend (\<^verbatim>\<open>pricing_service.py\<close>, \<^verbatim>\<open>usage_service.py\<close>,
  \<^verbatim>\<open>session_service.py\<close>) are embedded as HOL functions.

  \<^item> Python \<^verbatim>\<open>int\<close> is \<^typ>\<open>int\<close>. Python \<^verbatim>\<open>float\<close> (rates, costs, burn rates) is
    modelled by the exact rational \<^typ>\<open>rat\<close> it denotes: sums, products and quotients
    are the exact ones, rounding error of binary floating point is not modelled.
  \<^item> Python \<^verbatim>\<open>str\<close> is \<^typ>\<open>string\<close>, compared by code point
    (lexicographic order on lists of characters).
  \<^item> An exception is a value of \<open>py_error\<close>; a function that can raise returns
    \<open>py_error + 'a\<close> with \<open>Inl\<close> the exception.
\<close>

datatype py_error =
    TypeError
  | ValueError
  | OverflowError
  | AttributeError
  | ZeroDivisionError
  | MultipleResultsFound

section \<open>Pricing service\<close>

text \<open>
  One value of \<^verbatim>\<open>MODEL_PRICING\<close>: a dict with up to eight keys, read only through
  \<^verbatim>\<open>pricing.get(key)\<close>, so an absent key is \<open>None\<close>.
\<close>

record pricing =
  pr_input :: "rat option"
  pr_output :: "rat option"
  pr_cache_creation :: "rat option"
  pr_cache_read :: "rat option"
  pr_input_above_200k :: "rat option"
  pr_output_above_200k :: "rat option"
  pr_cache_creation_above_200k :: "rat option"
  pr_cache_read_above_200k :: "rat option"

definition TIERED_THRESHOLD :: int where
  "TIERED_THRESHOLD = 200000"

definition tiered_pricing :: "rat \<Rightarrow> rat \<Rightarrow> rat \<Rightarrow> rat \<Rightarrow> rat \<Rightarrow> rat \<Rightarrow> rat \<Rightarrow> rat \<Rightarrow> pricing" where
  "tiered_pricing i out cc cr i2 out2 cc2 cr2 =
     \<lparr>pr_input = Some (i / 1000000), pr_output = Some (out / 1000000),
      pr_cache_creation = Some (cc / 1000000), pr_cache_read = Some (cr / 1000000),
      pr_input_above_200k = Some (i2 / 1000000), pr_output_above_200k = Some (out2 / 1000000),
      pr_cache_creation_above_200k = Some (cc2 / 1000000),
      pr_cache_read_above_200k = Some (cr2 / 1000000)\<rparr>"

definition flat_pricing :: "rat \<Rightarrow> rat \<Rightarrow> rat \<Rightarrow> rat \<Rightarrow> pricing" where
  "flat_pricing i out cc cr =
     \<lparr>pr_input = Some (i / 1000000), pr_output = Some (out / 1000000),
      pr_cache_creation = Some (cc / 1000000), pr_cache_read = Some (cr / 1000000),
      pr_input_above_200k = None, pr_output_above_200k = None,
      pr_cache_creation_above_200k = None, pr_cache_read_above_200k = None\<rparr>"

text \<open>The static table, in the order of the dict literal (the iteration order of the dict).\<close>

definition MODEL_PRICING :: "(string \<times> pricing) list" where
  "MODEL_PRICING =
    [(''claude-sonnet-4-20250514'', tiered_pricing 3 15 (375 / 100) (30 / 100) 6 (2250 / 100) (750 / 100) (60 / 100)),
     (''claude-opus-4-20250514'', tiered_pricing 15 75 (1875 / 100) (150 / 100) 30 (11250 / 100) (3750 / 100) 3),
     (''claude-opus-4-5-20251101'', tiered_pricing 15 75 (1875 / 100) (150 / 100) 30 (11250 / 100) (3750 / 100) 3),
     (''claude-3-5-sonnet-20241022'', flat_pricing 3 15 (375 / 100) (30 / 100)),
     (''claude-3-5-sonnet-20240620'', flat_pricing 3 15 (375 / 100) (30 / 100)),
     (''claude-3-5-haiku-20241022'', flat_pricing (80 / 100) 4 1 (8 / 100)),
     (''claude-3-opus-20240229'', flat_pricing 15 75 (1875 / 100) (150 / 100)),
     (''claude-3-sonnet-20240229'', flat_pricing 3 15 (375 / 100) (30 / 100)),
     (''claude-3-haiku-20240307'', flat_pricing (25 / 100) (125 / 100) (30 / 100) (3 / 100))]"

definition PROVIDER_PREFIXES :: "string list" where
  "PROVIDER_PREFIXES = [''anthropic/'', ''claude-'', ''claude-3-'', ''claude-3-5-'']"

text \<open>\<^verbatim>\<open>str.lower\<close> on the ASCII letters.\<close>

definition lower_char :: "char \<Rightarrow> char" where
  "lower_char c =
     (let n = (of_char c :: nat) in if 65 \<le> n \<and> n \<le> 90 then char_of (n + 32) else c)"

definition lower :: "string \<Rightarrow> string" where
  "lower s = map lower_char s"

text \<open>
  \<^verbatim>\<open>normalize_model_name\<close>: the loop over the prefixes strips each prefix that the
  string, as left by the earlier iterations, starts with.
\<close>

definition strip_prefix :: "string \<Rightarrow> string \<Rightarrow> string" where
  "strip_prefix normalized p = (if prefix p normalized then drop (length p) normalized else normalized)"

definition normalize_model_name :: "string \<Rightarrow> string" where
  "normalize_model_name model_name = foldl strip_prefix (lower model_name) PROVIDER_PREFIXES"

text \<open>\<^verbatim>\<open>next\<close> over a dict in iteration order: the first entry whose key passes the test.\<close>

fun first_match :: "(string \<Rightarrow> bool) \<Rightarrow> (string \<times> pricing) list \<Rightarrow> pricing option" where
  "first_match P [] = None"
| "first_match P ((k, v) # kvs) = (if P k then Some v else first_match P kvs)"

fun first_prefixed :: "string list \<Rightarrow> string \<Rightarrow> pricing option" where
  "first_prefixed [] model_name = None"
| "first_prefixed (p # ps) model_name =
     (case map_of MODEL_PRICING (p @ model_name) of
        Some v \<Rightarrow> Some v
      | None \<Rightarrow> first_prefixed ps model_name)"

definition get_model_pricing :: "string \<Rightarrow> pricing option" where
  "get_model_pricing model_name =
     (case map_of MODEL_PRICING model_name of
        Some v \<Rightarrow> Some v
      | None \<Rightarrow>
         (case first_prefixed PROVIDER_PREFIXES model_name of
            Some v \<Rightarrow> Some v
          | None \<Rightarrow>
             (case first_match (\<lambda>key. normalize_model_name key = normalize_model_name model_name)
                     MODEL_PRICING of
                Some v \<Rightarrow> Some v
              | None \<Rightarrow>
                 first_match (\<lambda>key. sublist key model_name \<or> sublist model_name key)
                   MODEL_PRICING)))"

definition calculate_tiered_cost :: "int \<Rightarrow> rat option \<Rightarrow> rat option \<Rightarrow> int \<Rightarrow> rat" where
  "calculate_tiered_cost total_tokens base_price tiered_price threshold =
     (if total_tokens \<le> 0 then 0
      else if total_tokens > threshold \<and> tiered_price \<noteq> None then
        (let tokens_below = min total_tokens threshold;
             tokens_above = max 0 (total_tokens - threshold);
             tiered_cost = of_int tokens_above * the tiered_price
         in (case base_price of
               Some b \<Rightarrow> tiered_cost + of_int tokens_below * b
             | None \<Rightarrow> tiered_cost))
      else (case base_price of
              Some b \<Rightarrow> of_int total_tokens * b
            | None \<Rightarrow> 0))"

definition calculate_cost :: "int \<Rightarrow> int \<Rightarrow> int \<Rightarrow> int \<Rightarrow> string option \<Rightarrow> rat" where
  "calculate_cost input_tokens output_tokens cache_creation_tokens cache_read_tokens model =
     (case model of
        None \<Rightarrow> 0
      | Some m \<Rightarrow>
         (case get_model_pricing m of
            None \<Rightarrow> 0
          | Some pricing \<Rightarrow>
             (let input_cost = calculate_tiered_cost input_tokens
                     (pr_input pricing) (pr_input_above_200k pricing) TIERED_THRESHOLD;
                  output_cost = calculate_tiered_cost output_tokens
                     (pr_output pricing) (pr_output_above_200k pricing) TIERED_THRESHOLD;
                  cache_creation_cost = calculate_tiered_cost cache_creation_tokens
                     (pr_cache_creation pricing) (pr_cache_creation_above_200k pricing) TIERED_THRESHOLD;
                  cache_read_cost = calculate_tiered_cost cache_read_tokens
                     (pr_cache_read pricing) (pr_cache_read_above_200k pricing) TIERED_THRESHOLD
              in input_cost + output_cost + cache_creation_cost + cache_read_cost)))"

section \<open>Dates and times\<close>

text \<open>
  A Python \<^verbatim>\<open>datetime\<close> is modelled by its wall-clock reading, counted in microseconds
  since 0001-01-01T00:00:00 (\<open>ticks\<close>, which fixes year, month, day, hour, minute,
  second and microsecond), and its UTC offset in microseconds (\<open>utcoffset\<close>, \<open>None\<close>
  for a naive datetime). A \<^verbatim>\<open>timedelta\<close> is a number of microseconds.
  Python refuses to order or subtract a naive and an aware datetime (\<^verbatim>\<open>TypeError\<close>)
  and refuses a sum outside the years 1 to 9999 (\<^verbatim>\<open>OverflowError\<close>).
\<close>

record datetime =
  ticks :: int
  utcoffset :: "int option"

type_synonym timedelta = int

definition td_hours :: "int \<Rightarrow> timedelta" where
  "td_hours h = h * 3600000000"

definition td_minutes :: "int \<Rightarrow> timedelta" where
  "td_minutes m = m * 60000000"

definition td_days :: "int \<Rightarrow> timedelta" where
  "td_days d = d * 86400000000"

definition total_seconds :: "timedelta \<Rightarrow> rat" where
  "total_seconds td = of_int td / 1000000"

definition MAX_TICKS :: int where
  "MAX_TICKS = 3652059 * 86400000000"

definition dt_add :: "datetime \<Rightarrow> timedelta \<Rightarrow> py_error + datetime" where
  "dt_add d td =
     (let t = ticks d + td
      in if 0 \<le> t \<and> t < MAX_TICKS then Inr (d\<lparr>ticks := t\<rparr>) else Inl OverflowError)"

definition dt_sub :: "datetime \<Rightarrow> datetime \<Rightarrow> py_error + timedelta" where
  "dt_sub a b =
     (case (utcoffset a, utcoffset b) of
        (None, None) \<Rightarrow> Inr (ticks a - ticks b)
      | (Some oa, Some ob) \<Rightarrow> Inr ((ticks a - oa) - (ticks b - ob))
      | _ \<Rightarrow> Inl TypeError)"

definition dt_less :: "datetime \<Rightarrow> datetime \<Rightarrow> py_error + bool" where
  "dt_less a b =
     (case (utcoffset a, utcoffset b) of
        (None, None) \<Rightarrow> Inr (ticks a < ticks b)
      | (Some oa, Some ob) \<Rightarrow> Inr (ticks a - oa < ticks b - ob)
      | _ \<Rightarrow> Inl TypeError)"

definition dt_ge :: "datetime \<Rightarrow> datetime \<Rightarrow> py_error + bool" where
  "dt_ge a b =
     (case (utcoffset a, utcoffset b) of
        (None, None) \<Rightarrow> Inr (ticks a \<ge> ticks b)
      | (Some oa, Some ob) \<Rightarrow> Inr (ticks a - oa \<ge> ticks b - ob)
      | _ \<Rightarrow> Inl TypeError)"

text \<open>\<^verbatim>\<open>datetime.now(timezone.utc)\<close>: the clock reading, aware, with offset 0.\<close>

definition utc_datetime :: "int \<Rightarrow> datetime" where
  "utc_datetime t = \<lparr>ticks = t, utcoffset = Some 0\<rparr>"

text \<open>Sequencing of computations that may raise.\<close>

definition ebind :: "py_error + 'a \<Rightarrow> ('a \<Rightarrow> py_error + 'b) \<Rightarrow> py_error + 'b" where
  "ebind m f = (case m of Inl err \<Rightarrow> Inl err | Inr x \<Rightarrow> f x)"

fun emap :: "('a \<Rightarrow> py_error + 'b) \<Rightarrow> 'a list \<Rightarrow> py_error + 'b list" where
  "emap f [] = Inr []"
| "emap f (x # xs) = ebind (f x) (\<lambda>y. ebind (emap f xs) (\<lambda>ys. Inr (y # ys)))"

fun efilter :: "('a \<Rightarrow> py_error + bool) \<Rightarrow> 'a list \<Rightarrow> py_error + 'a list" where
  "efilter P [] = Inr []"
| "efilter P (x # xs) =
     ebind (P x) (\<lambda>b. ebind (efilter P xs) (\<lambda>ys. Inr (if b then x # ys else ys)))"

fun efoldl :: "('s \<Rightarrow> 'a \<Rightarrow> py_error + 's) \<Rightarrow> 's \<Rightarrow> 'a list \<Rightarrow> py_error + 's" where
  "efoldl f s [] = Inr s"
| "efoldl f s (x # xs) = ebind (f s x) (\<lambda>s'. efoldl f s' xs)"

subsection \<open>The proleptic Gregorian calendar of the datetime module\<close>

definition is_leap :: "int \<Rightarrow> bool" where
  "is_leap y = (y mod 4 = 0 \<and> (y mod 100 \<noteq> 0 \<or> y mod 400 = 0))"

definition days_before_year :: "int \<Rightarrow> int" where
  "days_before_year year = (let y = year - 1 in y * 365 + y div 4 - y div 100 + y div 400)"

definition days_in_month :: "int \<Rightarrow> int \<Rightarrow> int" where
  "days_in_month year month =
     (if month = 2 then (if is_leap year then 29 else 28)
      else if month = 4 \<or> month = 6 \<or> month = 9 \<or> month = 11 then 30 else 31)"

definition days_before_month :: "int \<Rightarrow> int \<Rightarrow> int" where
  "days_before_month year month = sum_list (map (days_in_month year) [1..month - 1])"

definition ymd2ord :: "int \<Rightarrow> int \<Rightarrow> int \<Rightarrow> int" where
  "ymd2ord year month day = days_before_year year + days_before_month year month + day"

definition ord2ymd :: "int \<Rightarrow> int \<times> int \<times> int" where
  "ord2ymd ordinal =
     (let n = ordinal - 1;
          n400 = n div 146097; r400 = n mod 146097;
          n100 = r400 div 36524; r100 = r400 mod 36524;
          n4 = r100 div 1461; r4 = r100 mod 1461;
          n1 = r4 div 365; r1 = r4 mod 365;
          year = n400 * 400 + 1 + n100 * 100 + n4 * 4 + n1
      in if n1 = 4 \<or> n100 = 4 then (year - 1, 12, 31)
         else
           (let month = (r1 + 50) div 32;
                preceding = days_before_month year month
            in if preceding > r1
               then (year, month - 1, r1 - (preceding - days_in_month year (month - 1)) + 1)
               else (year, month, r1 - preceding + 1)))"

definition digit_char :: "int \<Rightarrow> char" where
  "digit_char d = ''0123456789'' ! nat (d mod 10)"

definition str2 :: "int \<Rightarrow> string" where
  "str2 n = [digit_char (n div 10), digit_char n]"

definition str4 :: "int \<Rightarrow> string" where
  "str4 n = [digit_char (n div 1000), digit_char (n div 100), digit_char (n div 10), digit_char n]"

definition date_of :: "datetime \<Rightarrow> int \<times> int \<times> int" where
  "date_of dt = ord2ymd (ticks dt div 86400000000 + 1)"

text \<open>\<^verbatim>\<open>strftime("%Y-%m-%d")\<close> and \<^verbatim>\<open>strftime("%Y-%m")\<close>, years printed with four digits.\<close>

definition strftime_Ymd :: "datetime \<Rightarrow> string" where
  "strftime_Ymd dt = (case date_of dt of (y, m, d) \<Rightarrow> str4 y @ ''-'' @ str2 m @ ''-'' @ str2 d)"

definition strftime_Ym :: "datetime \<Rightarrow> string" where
  "strftime_Ym dt = (case date_of dt of (y, m, d) \<Rightarrow> str4 y @ ''-'' @ str2 m)"

text \<open>
  \<^verbatim>\<open>datetime.strptime(s, "%Y-%m-%d")\<close>. The format compiles to the regular expression
  \<^verbatim>\<open>(\d\d\d\d)-(1[0-2]|0[1-9]|[1-9])-(3[01]|[12]\d|0[1-9]|[1-9]| [1-9])\<close>,
  matched at the start of the string; characters left over, a year 0 or a day beyond
  the month's length are a \<^verbatim>\<open>ValueError\<close>. The result is naive, at midnight.
\<close>

definition is_digit :: "char \<Rightarrow> bool" where
  "is_digit c = (let n = (of_char c :: nat) in 48 \<le> n \<and> n \<le> 57)"

definition digit_val :: "char \<Rightarrow> int" where
  "digit_val c = int (of_char c) - 48"

definition in_range :: "char \<Rightarrow> char \<Rightarrow> char \<Rightarrow> bool" where
  "in_range lo hi c = ((of_char lo :: nat) \<le> of_char c \<and> (of_char c :: nat) \<le> of_char hi)"

definition match_month :: "string \<Rightarrow> (int \<times> string) option" where
  "match_month s =
     (case s of
        a # b # rest \<Rightarrow>
          (if a = CHR ''1'' \<and> in_range CHR ''0'' CHR ''2'' b \<and> take 1 rest = ''-''
             then Some (10 + digit_val b, drop 1 rest)
           else if a = CHR ''0'' \<and> in_range CHR ''1'' CHR ''9'' b \<and> take 1 rest = ''-''
             then Some (digit_val b, drop 1 rest)
           else if in_range CHR ''1'' CHR ''9'' a \<and> b = CHR ''-''
             then Some (digit_val a, rest)
           else None)
      | _ \<Rightarrow> None)"

definition match_day :: "string \<Rightarrow> (int \<times> string) option" where
  "match_day s =
     (case s of
        [] \<Rightarrow> None
      | a # t \<Rightarrow>
         (case t of
            [] \<Rightarrow> (if in_range CHR ''1'' CHR ''9'' a then Some (digit_val a, []) else None)
          | b # rest \<Rightarrow>
             (if a = CHR ''3'' \<and> in_range CHR ''0'' CHR ''1'' b then Some (30 + digit_val b, rest)
              else if in_range CHR ''1'' CHR ''2'' a \<and> is_digit b
                then Some (10 * digit_val a + digit_val b, rest)
              else if a = CHR ''0'' \<and> in_range CHR ''1'' CHR ''9'' b then Some (digit_val b, rest)
              else if in_range CHR ''1'' CHR ''9'' a then Some (digit_val a, b # rest)
              else if a = CHR '' '' \<and> in_range CHR ''1'' CHR ''9'' b then Some (digit_val b, rest)
              else None)))"

definition strptime_Ymd :: "string \<Rightarrow> py_error + datetime" where
  "strptime_Ymd s =
     (case s of
        y1 # y2 # y3 # y4 # dash # s1 \<Rightarrow>
          (if is_digit y1 \<and> is_digit y2 \<and> is_digit y3 \<and> is_digit y4 \<and> dash = CHR ''-'' then
             (case match_month s1 of
                None \<Rightarrow> Inl ValueError
              | Some (month, s2) \<Rightarrow>
                 (case match_day s2 of
                    None \<Rightarrow> Inl ValueError
                  | Some (day, s3) \<Rightarrow>
                     (let year = 1000 * digit_val y1 + 100 * digit_val y2
                                  + 10 * digit_val y3 + digit_val y4
                      in if s3 \<noteq> [] \<or> year < 1 \<or> day > days_in_month year month
                         then Inl ValueError
                         else Inr \<lparr>ticks = (ymd2ord year month day - 1) * 86400000000,
                                   utcoffset = None\<rparr>)))
           else Inl ValueError)
      | _ \<Rightarrow> Inl ValueError)"

section \<open>Usage entries and the aggregators\<close>

record LoadedUsageEntry =
  timestamp :: datetime
  input_tokens :: int
  output_tokens :: int
  cache_creation_tokens :: int
  cache_read_tokens :: int
  cost_usd :: "rat option"
  model :: string
  session_id :: "string option"
  version :: "string option"
  project_path :: string

record ModelBreakdown =
  mb_model :: string
  mb_input_tokens :: int
  mb_output_tokens :: int
  mb_cache_creation_tokens :: int
  mb_cache_read_tokens :: int
  mb_cost :: rat

text \<open>
  \<^verbatim>\<open>DailyUsage\<close>, \<^verbatim>\<open>MonthlyUsage\<close> and \<^verbatim>\<open>SessionUsage\<close>. \<^verbatim>\<open>models_used\<close> and
  \<^verbatim>\<open>versions\<close> are built by \<^verbatim>\<open>list(set(...))\<close>, whose order Python leaves open: they
  are sets here.
\<close>

record DailyUsage =
  du_date :: string
  du_input_tokens :: int
  du_output_tokens :: int
  du_cache_creation_tokens :: int
  du_cache_read_tokens :: int
  du_total_cost :: rat
  du_models_used :: "string set"
  du_model_breakdowns :: "ModelBreakdown list"

record MonthlyUsage =
  mu_month :: string
  mu_input_tokens :: int
  mu_output_tokens :: int
  mu_cache_creation_tokens :: int
  mu_cache_read_tokens :: int
  mu_total_cost :: rat
  mu_models_used :: "string set"
  mu_model_breakdowns :: "ModelBreakdown list"

record SessionUsage =
  su_session_id :: string
  su_project_path :: string
  su_input_tokens :: int
  su_output_tokens :: int
  su_cache_creation_tokens :: int
  su_cache_read_tokens :: int
  su_total_cost :: rat
  su_last_activity :: string
  su_versions :: "string set"
  su_models_used :: "string set"
  su_model_breakdowns :: "ModelBreakdown list"

text \<open>The builtin \<^verbatim>\<open>sum\<close>: starts at 0 and adds the items from left to right.\<close>

definition py_sum :: "'a::monoid_add list \<Rightarrow> 'a" where
  "py_sum xs = foldl (+) 0 xs"

definition calculate_entry_cost :: "LoadedUsageEntry \<Rightarrow> rat" where
  "calculate_entry_cost entry =
     (case cost_usd entry of
        Some c \<Rightarrow> c
      | None \<Rightarrow>
          calculate_cost (input_tokens entry) (output_tokens entry)
            (cache_creation_tokens entry) (cache_read_tokens entry) (Some (model entry)))"

text \<open>
  \<^verbatim>\<open>_aggregate_model_breakdowns\<close>: \<^verbatim>\<open>model_data\<close> is a \<^verbatim>\<open>defaultdict\<close>, kept here as the
  list of its rows in insertion order, which is the order \<^verbatim>\<open>items()\<close> iterates in.
  \<open>add_entry\<close> is one turn of the loop.
\<close>

fun add_entry :: "LoadedUsageEntry \<Rightarrow> ModelBreakdown list \<Rightarrow> ModelBreakdown list" where
  "add_entry entry [] =
     [\<lparr>mb_model = model entry,
       mb_input_tokens = 0 + input_tokens entry,
       mb_output_tokens = 0 + output_tokens entry,
       mb_cache_creation_tokens = 0 + cache_creation_tokens entry,
       mb_cache_read_tokens = 0 + cache_read_tokens entry,
       mb_cost = 0 + calculate_entry_cost entry\<rparr>]"
| "add_entry entry (d # ds) =
     (if mb_model d = model entry
      then d\<lparr>mb_input_tokens := mb_input_tokens d + input_tokens entry,
             mb_output_tokens := mb_output_tokens d + output_tokens entry,
             mb_cache_creation_tokens := mb_cache_creation_tokens d + cache_creation_tokens entry,
             mb_cache_read_tokens := mb_cache_read_tokens d + cache_read_tokens entry,
             mb_cost := mb_cost d + calculate_entry_cost entry\<rparr> # ds
      else d # add_entry entry ds)"

definition aggregate_model_breakdowns :: "LoadedUsageEntry list \<Rightarrow> ModelBreakdown list" where
  "aggregate_model_breakdowns entries = foldl (\<lambda>model_data entry. add_entry entry model_data) [] entries"

text \<open>
  \<^verbatim>\<open>defaultdict(list)\<close> filled by \<^verbatim>\<open>d[key(entry)].append(entry)\<close>: the groups in insertion
  order of their keys, each group in the order of the entries.
\<close>

fun append_to_group :: "'k \<Rightarrow> 'a \<Rightarrow> ('k \<times> 'a list) list \<Rightarrow> ('k \<times> 'a list) list" where
  "append_to_group k x [] = [(k, [x])]"
| "append_to_group k x ((k', xs) # gs) =
     (if k' = k then (k', xs @ [x]) # gs else (k', xs) # append_to_group k x gs)"

definition group_by :: "('a \<Rightarrow> 'k) \<Rightarrow> 'a list \<Rightarrow> ('k \<times> 'a list) list" where
  "group_by key xs = foldl (\<lambda>d x. append_to_group (key x) x d) [] xs"

text \<open>\<^verbatim>\<open>sorted(d.items(), reverse=True)\<close> on a dict: the keys are distinct, the order is by key, descending.\<close>

definition sorted_items_desc :: "('k::linorder \<times> 'a) list \<Rightarrow> ('k \<times> 'a) list" where
  "sorted_items_desc items = rev (sort_key fst items)"

definition aggregate_by_daily :: "LoadedUsageEntry list \<Rightarrow> DailyUsage list" where
  "aggregate_by_daily entries =
     map (\<lambda>(date, day_entries).
            \<lparr>du_date = date,
             du_input_tokens = py_sum (map input_tokens day_entries),
             du_output_tokens = py_sum (map output_tokens day_entries),
             du_cache_creation_tokens = py_sum (map cache_creation_tokens day_entries),
             du_cache_read_tokens = py_sum (map cache_read_tokens day_entries),
             du_total_cost = py_sum (map calculate_entry_cost day_entries),
             du_models_used = set (map model day_entries),
             du_model_breakdowns = aggregate_model_breakdowns day_entries\<rparr>)
       (sorted_items_desc (group_by (\<lambda>entry. strftime_Ymd (timestamp entry)) entries))"

definition aggregate_by_monthly :: "LoadedUsageEntry list \<Rightarrow> MonthlyUsage list" where
  "aggregate_by_monthly entries =
     map (\<lambda>(month, month_entries).
            \<lparr>mu_month = month,
             mu_input_tokens = py_sum (map input_tokens month_entries),
             mu_output_tokens = py_sum (map output_tokens month_entries),
             mu_cache_creation_tokens = py_sum (map cache_creation_tokens month_entries),
             mu_cache_read_tokens = py_sum (map cache_read_tokens month_entries),
             mu_total_cost = py_sum (map calculate_entry_cost month_entries),
             mu_models_used = set (map model month_entries),
             mu_model_breakdowns = aggregate_model_breakdowns month_entries\<rparr>)
       (sorted_items_desc (group_by (\<lambda>entry. strftime_Ym (timestamp entry)) entries))"

text \<open>\<^verbatim>\<open>f"{entry.project_path}:{entry.session_id}"\<close>; a \<^verbatim>\<open>None\<close> prints as \<^verbatim>\<open>None\<close>.\<close>

definition format_opt :: "string option \<Rightarrow> string" where
  "format_opt v = (case v of None \<Rightarrow> ''None'' | Some s \<Rightarrow> s)"

definition session_key :: "LoadedUsageEntry \<Rightarrow> string" where
  "session_key entry = project_path entry @ '':'' @ format_opt (session_id entry)"

text \<open>\<^verbatim>\<open>key.split(":", 1)\<close> on a key that holds a colon: the parts before and after the first colon.\<close>

definition split_colon :: "string \<Rightarrow> string \<times> string" where
  "split_colon s = (takeWhile (\<lambda>c. c \<noteq> CHR '':'') s, drop 1 (dropWhile (\<lambda>c. c \<noteq> CHR '':'') s))"

text \<open>
  \<^verbatim>\<open>max(entries, key=lambda e: e.timestamp)\<close> on a non-empty list: the first entry with
  the largest timestamp; each later item is compared with the best so far.
\<close>

definition max_step :: "LoadedUsageEntry \<Rightarrow> LoadedUsageEntry \<Rightarrow> py_error + LoadedUsageEntry" where
  "max_step best x =
     ebind (dt_less (timestamp best) (timestamp x)) (\<lambda>b. Inr (if b then x else best))"

definition max_by_timestamp :: "LoadedUsageEntry list \<Rightarrow> py_error + LoadedUsageEntry" where
  "max_by_timestamp entries =
     (case entries of
        [] \<Rightarrow> Inl ValueError
      | x # xs \<Rightarrow> efoldl max_step x xs)"

text \<open>\<^verbatim>\<open>list.sort(key=..., reverse=True)\<close>: descending by key, entries with equal keys keep their order.\<close>

definition sort_desc_stable :: "('a \<Rightarrow> 'k::linorder) \<Rightarrow> 'a list \<Rightarrow> 'a list" where
  "sort_desc_stable key xs = rev (sort_key key (rev xs))"

definition session_row :: "string \<times> LoadedUsageEntry list \<Rightarrow> py_error + SessionUsage" where
  "session_row item =
     (case item of (key, session_entries) \<Rightarrow>
        (case split_colon key of (project_path', session_id') \<Rightarrow>
           ebind (max_by_timestamp session_entries) (\<lambda>last_entry.
             Inr \<lparr>su_session_id = session_id',
                  su_project_path = project_path',
                  su_input_tokens = py_sum (map input_tokens session_entries),
                  su_output_tokens = py_sum (map output_tokens session_entries),
                  su_cache_creation_tokens = py_sum (map cache_creation_tokens session_entries),
                  su_cache_read_tokens = py_sum (map cache_read_tokens session_entries),
                  su_total_cost = py_sum (map calculate_entry_cost session_entries),
                  su_last_activity = strftime_Ymd (timestamp last_entry),
                  su_versions = set (map the (filter (\<lambda>v. v \<noteq> None) (map version session_entries))),
                  su_models_used = set (map model session_entries),
                  su_model_breakdowns = aggregate_model_breakdowns session_entries\<rparr>)))"

definition aggregate_by_session :: "LoadedUsageEntry list \<Rightarrow> py_error + SessionUsage list" where
  "aggregate_by_session entries =
     ebind (emap session_row (group_by session_key entries)) (\<lambda>session_usage.
       Inr (sort_desc_stable su_last_activity session_usage))"

section \<open>Session blocks\<close>

text \<open>
  \<^verbatim>\<open>SessionBlock\<close>. The string fields \<^verbatim>\<open>id\<close>, \<^verbatim>\<open>start_time\<close>, \<^verbatim>\<open>end_time\<close> and
  \<^verbatim>\<open>actual_end_time\<close> hold \<^verbatim>\<open>isoformat()\<close> of a datetime and are kept as that datetime;
  the id of a gap block carries the prefix \<^verbatim>\<open>gap-\<close>. The fields a gap block does not
  set are \<open>None\<close>.
\<close>

datatype block_id = BlockId datetime | GapId datetime

record SessionBlock =
  sb_id :: block_id
  sb_start_time :: datetime
  sb_end_time :: datetime
  sb_actual_end_time :: "datetime option"
  sb_is_active :: bool
  sb_is_gap :: bool
  sb_input_tokens :: int
  sb_output_tokens :: int
  sb_cache_creation_tokens :: int
  sb_cache_read_tokens :: int
  sb_cost_usd :: rat
  sb_models :: "string set"
  burn_rate_tokens_per_minute :: "rat option"
  burn_rate_cost_per_hour :: "rat option"
  projected_total_tokens :: "int option"
  projected_total_cost :: "rat option"
  remaining_minutes :: "int option"

definition SESSION_DURATION_HOURS :: int where
  "SESSION_DURATION_HOURS = 5"

text \<open>\<^verbatim>\<open>int(x)\<close> truncates towards zero; \<^verbatim>\<open>x / y\<close> raises on a zero divisor.\<close>

definition py_int :: "rat \<Rightarrow> int" where
  "py_int x = (if x \<ge> 0 then \<lfloor>x\<rfloor> else \<lceil>x\<rceil>)"

definition py_truediv :: "rat \<Rightarrow> rat \<Rightarrow> py_error + rat" where
  "py_truediv a b = (if b = 0 then Inl ZeroDivisionError else Inr (a / b))"

text \<open>\<^verbatim>\<open>round(x, 2)\<close>: to the nearest multiple of 1/100, a tie to the even one.\<close>

definition py_round2 :: "rat \<Rightarrow> rat" where
  "py_round2 x =
     (let y = x * 100; f = \<lfloor>y\<rfloor>; r = y - of_int f
      in of_int (if r < 1 / 2 then f else if r > 1 / 2 then f + 1
                 else if even f then f else f + 1) / 100)"

definition floor_to_hour :: "datetime \<Rightarrow> datetime" where
  "floor_to_hour dt = dt\<lparr>ticks := ticks dt - ticks dt mod 3600000000\<rparr>"

text \<open>
  The five projection fields of a block, where they are computed: the body of
  \<^verbatim>\<open>if is_active and len(entries) > 1\<close> in \<^verbatim>\<open>_create_block\<close>. \<open>Inr None\<close> leaves the
  five variables at their initial \<^verbatim>\<open>None\<close>.
\<close>

record projection =
  pj_burn_rate_tokens :: rat
  pj_burn_rate_cost :: rat
  pj_projected_tokens :: int
  pj_projected_cost :: rat
  pj_remaining_minutes :: int

definition project_block ::
    "datetime \<Rightarrow> datetime \<Rightarrow> LoadedUsageEntry list \<Rightarrow> int \<Rightarrow> rat \<Rightarrow> py_error + projection option" where
  "project_block end_time now entries total_tokens cost =
     ebind (dt_sub (timestamp (last entries)) (timestamp (hd entries))) (\<lambda>span.
     let duration_minutes = total_seconds span / 60 in
     if duration_minutes > 0 then
       ebind (py_truediv (of_int total_tokens) duration_minutes) (\<lambda>burn_rate_tokens.
       ebind (py_truediv cost duration_minutes) (\<lambda>cost_per_minute.
       ebind (dt_sub end_time now) (\<lambda>remaining.
       let burn_rate_cost = cost_per_minute * 60;
           remaining_ms = total_seconds remaining * 1000;
           remaining_minutes' = max 0 (py_int (remaining_ms / (1000 * 60)));
           projected_additional_tokens = burn_rate_tokens * of_int remaining_minutes';
           projected_tokens = py_int (of_int total_tokens + projected_additional_tokens);
           projected_additional_cost = (burn_rate_cost / 60) * of_int remaining_minutes';
           projected_cost = py_round2 (cost + projected_additional_cost)
       in Inr (Some
            \<lparr>pj_burn_rate_tokens = burn_rate_tokens,
             pj_burn_rate_cost = burn_rate_cost,
             pj_projected_tokens = projected_tokens,
             pj_projected_cost = projected_cost,
             pj_remaining_minutes = remaining_minutes'\<rparr>))))
     else Inr None)"

definition create_block ::
    "datetime \<Rightarrow> LoadedUsageEntry list \<Rightarrow> datetime \<Rightarrow> py_error + SessionBlock" where
  "create_block start_time entries now =
     (let session_duration = td_hours SESSION_DURATION_HOURS in
      ebind (dt_add start_time session_duration) (\<lambda>end_time.
      let actual_end_time = (if entries = [] then start_time else timestamp (last entries)) in
      ebind (ebind (dt_sub now actual_end_time) (\<lambda>since_last.
               if since_last < session_duration then dt_less now end_time else Inr False))
        (\<lambda>is_active.
      let input_tokens' = py_sum (map input_tokens entries);
          output_tokens' = py_sum (map output_tokens entries);
          cache_creation = py_sum (map cache_creation_tokens entries);
          cache_read = py_sum (map cache_read_tokens entries);
          cost = py_sum (map calculate_entry_cost entries)
      in
      ebind (if is_active \<and> length entries > 1
             then project_block end_time now entries
                    (input_tokens' + output_tokens' + cache_creation + cache_read) cost
             else Inr None) (\<lambda>p.
      Inr \<lparr>sb_id = BlockId start_time,
           sb_start_time = start_time,
           sb_end_time = end_time,
           sb_actual_end_time = Some actual_end_time,
           sb_is_active = is_active,
           sb_is_gap = False,
           sb_input_tokens = input_tokens',
           sb_output_tokens = output_tokens',
           sb_cache_creation_tokens = cache_creation,
           sb_cache_read_tokens = cache_read,
           sb_cost_usd = cost,
           sb_models = set (map model entries),
           burn_rate_tokens_per_minute = map_option pj_burn_rate_tokens p,
           burn_rate_cost_per_hour = map_option pj_burn_rate_cost p,
           projected_total_tokens = map_option pj_projected_tokens p,
           projected_total_cost = map_option pj_projected_cost p,
           remaining_minutes = map_option pj_remaining_minutes p\<rparr>))))"

definition create_gap_block :: "datetime \<Rightarrow> datetime \<Rightarrow> py_error + SessionBlock option" where
  "create_gap_block last_activity next_activity =
     (let session_duration = td_hours SESSION_DURATION_HOURS in
      ebind (dt_sub next_activity last_activity) (\<lambda>gap_duration.
      if gap_duration \<le> session_duration then Inr None
      else
        ebind (dt_add last_activity session_duration) (\<lambda>gap_start.
        Inr (Some
          \<lparr>sb_id = GapId gap_start,
           sb_start_time = gap_start,
           sb_end_time = next_activity,
           sb_actual_end_time = None,
           sb_is_active = False,
           sb_is_gap = True,
           sb_input_tokens = 0,
           sb_output_tokens = 0,
           sb_cache_creation_tokens = 0,
           sb_cache_read_tokens = 0,
           sb_cost_usd = 0,
           sb_models = {},
           burn_rate_tokens_per_minute = None,
           burn_rate_cost_per_hour = None,
           projected_total_tokens = None,
           projected_total_cost = None,
           remaining_minutes = None\<rparr>))))"

text \<open>
  \<^verbatim>\<open>sorted(entries, key=lambda e: e.timestamp)\<close> (and \<^verbatim>\<open>list.sort\<close> with the same key):
  a stable sort; ordering a naive against an aware timestamp raises.
\<close>

definition is_naive :: "LoadedUsageEntry \<Rightarrow> bool" where
  "is_naive entry = (utcoffset (timestamp entry) = None)"

definition utc_ticks :: "datetime \<Rightarrow> int" where
  "utc_ticks dt = (case utcoffset dt of None \<Rightarrow> ticks dt | Some off \<Rightarrow> ticks dt - off)"

definition sorted_by_timestamp :: "LoadedUsageEntry list \<Rightarrow> py_error + LoadedUsageEntry list" where
  "sorted_by_timestamp entries =
     (if list_all is_naive entries \<or> list_all (\<lambda>e. \<not> is_naive e) entries
      then Inr (sort_key (\<lambda>e. utc_ticks (timestamp e)) entries)
      else Inl TypeError)"

text \<open>The state of the loop of \<^verbatim>\<open>identify_session_blocks\<close> and one turn of it.\<close>

record seg_state =
  blocks :: "SessionBlock list"
  current_block_start :: "datetime option"
  current_block_entries :: "LoadedUsageEntry list"

definition session_duration_ms :: int where
  "session_duration_ms = SESSION_DURATION_HOURS * 60 * 60 * 1000"

definition segment_step :: "datetime \<Rightarrow> seg_state \<Rightarrow> LoadedUsageEntry \<Rightarrow> py_error + seg_state" where
  "segment_step now st entry =
     (let entry_time = timestamp entry in
      case current_block_start st of
        None \<Rightarrow>
          Inr (st\<lparr>current_block_start := Some (floor_to_hour entry_time),
                  current_block_entries := [entry]\<rparr>)
      | Some start \<Rightarrow>
          ebind (dt_sub entry_time start) (\<lambda>since_start.
          let time_since_start = total_seconds since_start * 1000;
              last_entry = (if current_block_entries st = [] then None
                            else Some (last (current_block_entries st)))
          in
          ebind (case last_entry of
                   None \<Rightarrow> Inr 0
                 | Some l \<Rightarrow>
                     ebind (dt_sub entry_time (timestamp l)) (\<lambda>since_last.
                       Inr (total_seconds since_last * 1000))) (\<lambda>time_since_last.
          if time_since_start > of_int session_duration_ms
               \<or> time_since_last > of_int session_duration_ms
          then
            ebind (create_block start (current_block_entries st) now) (\<lambda>block.
            ebind (case last_entry of
                     None \<Rightarrow> Inr []
                   | Some l \<Rightarrow>
                       if time_since_last > of_int session_duration_ms
                       then ebind (create_gap_block (timestamp l) entry_time) (\<lambda>gap_block.
                              Inr (case gap_block of None \<Rightarrow> [] | Some g \<Rightarrow> [g]))
                       else Inr []) (\<lambda>gap.
            Inr \<lparr>blocks = blocks st @ [block] @ gap,
                 current_block_start = Some (floor_to_hour entry_time),
                 current_block_entries = [entry]\<rparr>))
          else
            Inr (st\<lparr>current_block_entries := current_block_entries st @ [entry]\<rparr>))))"

definition identify_session_blocks :: "int \<Rightarrow> LoadedUsageEntry list \<Rightarrow> py_error + SessionBlock list" where
  "identify_session_blocks clock entries =
     (if entries = [] then Inr []
      else
        ebind (sorted_by_timestamp entries) (\<lambda>sorted_entries.
        let now = utc_datetime clock in
        ebind (efoldl (segment_step now)
                 \<lparr>blocks = [], current_block_start = None, current_block_entries = []\<rparr>
                 sorted_entries) (\<lambda>st.
        case current_block_start st of
          None \<Rightarrow> Inr (blocks st)
        | Some start \<Rightarrow>
            if current_block_entries st \<noteq> []
            then ebind (create_block start (current_block_entries st) now) (\<lambda>block.
                   Inr (blocks st @ [block]))
            else Inr (blocks st))))"

section \<open>Loading entries from a JSONL file\<close>

text \<open>
  A decoded JSON value, as \<^verbatim>\<open>json.loads\<close> returns it. An object is the list of its
  members in the order of the text; a number written with a fraction or an exponent is
  a float, modelled by the rational it denotes.
\<close>

datatype json =
    JNull
  | JBool bool
  | JInt int
  | JFloat rat
  | JString string
  | JArray "json list"
  | JObject "(string \<times> json) list"

text \<open>
  \<^verbatim>\<open>v.get(key, default)\<close>: only a dict has the method, any other value raises
  \<^verbatim>\<open>AttributeError\<close>. Of two members with one name the decoder keeps the later.
\<close>

definition dict_get :: "json \<Rightarrow> string \<Rightarrow> json \<Rightarrow> py_error + json" where
  "dict_get v key dflt =
     (case v of
        JObject members \<Rightarrow>
          (case map_of (rev members) key of None \<Rightarrow> Inr dflt | Some x \<Rightarrow> Inr x)
      | _ \<Rightarrow> Inl AttributeError)"

text \<open>Truth value of a decoded value (\<^verbatim>\<open>if not usage\<close>) and the test \<^verbatim>\<open>v == 0\<close>.\<close>

definition truthy :: "json \<Rightarrow> bool" where
  "truthy v =
     (case v of
        JNull \<Rightarrow> False
      | JBool b \<Rightarrow> b
      | JInt n \<Rightarrow> n \<noteq> 0
      | JFloat x \<Rightarrow> x \<noteq> 0
      | JString s \<Rightarrow> s \<noteq> []
      | JArray xs \<Rightarrow> xs \<noteq> []
      | JObject members \<Rightarrow> members \<noteq> [])"

definition eq_zero :: "json \<Rightarrow> bool" where
  "eq_zero v =
     (case v of
        JBool b \<Rightarrow> \<not> b
      | JInt n \<Rightarrow> n = 0
      | JFloat x \<Rightarrow> x = 0
      | _ \<Rightarrow> False)"

text \<open>
  \<^verbatim>\<open>LoadedUsageEntry(...)\<close> as the loader builds it: the dataclass checks no types, so
  each field read from the line holds the decoded value as it is.
\<close>

record raw_entry =
  raw_timestamp :: datetime
  raw_input_tokens :: json
  raw_output_tokens :: json
  raw_cache_creation_tokens :: json
  raw_cache_read_tokens :: json
  raw_cost_usd :: json
  raw_model :: json
  raw_session_id :: json
  raw_version :: json
  raw_project_path :: string

text \<open>\<^verbatim>\<open>str.strip()\<close> and \<^verbatim>\<open>str.replace("Z", "+00:00")\<close>.\<close>

definition is_space :: "char \<Rightarrow> bool" where
  "is_space c = (let n = (of_char c :: nat) in (9 \<le> n \<and> n \<le> 13) \<or> (28 \<le> n \<and> n \<le> 32))"

definition strip :: "string \<Rightarrow> string" where
  "strip s = rev (dropWhile is_space (rev (dropWhile is_space s)))"

definition replace_Z :: "string \<Rightarrow> string" where
  "replace_Z s = concat (map (\<lambda>c. if c = CHR ''Z'' then ''+00:00'' else [c]) s)"

text \<open>
  The body of the loop over the lines, from \<^verbatim>\<open>obj.get("type")\<close> on. \<open>Inr None\<close> is
  \<^verbatim>\<open>continue\<close>, \<open>Inr (Some e)\<close> appends \<open>e\<close>, \<open>Inl\<close> is an exception that leaves the
  loop. \<^verbatim>\<open>datetime.fromisoformat\<close> is a parameter: \<open>None\<close> is its \<^verbatim>\<open>ValueError\<close>.
\<close>

definition parse_record ::
    "(string \<Rightarrow> datetime option) \<Rightarrow> string \<Rightarrow> string \<Rightarrow> json \<Rightarrow> py_error + raw_entry option" where
  "parse_record fromisoformat project_folder stem obj =
     ebind (dict_get obj ''type'' JNull) (\<lambda>type.
     if type \<noteq> JString ''assistant'' then Inr None
     else
       ebind (dict_get obj ''message'' (JObject [])) (\<lambda>message.
       ebind (dict_get message ''usage'' (JObject [])) (\<lambda>usage.
       if \<not> truthy usage then Inr None
       else
         ebind (dict_get usage ''input_tokens'' (JInt 0)) (\<lambda>input_tokens'.
         ebind (dict_get usage ''output_tokens'' (JInt 0)) (\<lambda>output_tokens'.
         ebind (dict_get usage ''cache_creation_input_tokens'' (JInt 0)) (\<lambda>cache_creation.
         ebind (dict_get usage ''cache_read_input_tokens'' (JInt 0)) (\<lambda>cache_read.
         if eq_zero input_tokens' \<and> eq_zero output_tokens'
              \<and> eq_zero cache_creation \<and> eq_zero cache_read
         then Inr None
         else
           ebind (dict_get obj ''timestamp'' (JString [])) (\<lambda>timestamp_str.
           case (case timestamp_str of
                   JString t \<Rightarrow> fromisoformat (replace_Z t)
                 | _ \<Rightarrow> None) of
             None \<Rightarrow> Inr None
           | Some timestamp' \<Rightarrow>
               ebind (dict_get message ''model'' (JString ''unknown'')) (\<lambda>model'.
               ebind (dict_get obj ''costUSD'' JNull) (\<lambda>cost.
               ebind (dict_get obj ''sessionId'' JNull) (\<lambda>session.
               ebind (dict_get obj ''version'' JNull) (\<lambda>version'.
               Inr (Some
                 \<lparr>raw_timestamp = timestamp',
                  raw_input_tokens = input_tokens',
                  raw_output_tokens = output_tokens',
                  raw_cache_creation_tokens = cache_creation,
                  raw_cache_read_tokens = cache_read,
                  raw_cost_usd = cost,
                  raw_model = model',
                  raw_session_id = (if truthy session then session else JString stem),
                  raw_version = version',
                  raw_project_path = project_folder\<rparr>)))))))))))))"

text \<open>
  The loop. A blank line and a line that does not decode (\<open>json_loads\<close> gives \<open>None\<close>)
  are skipped; an exception ends the reading, and the entries read so far are returned
  (\<^verbatim>\<open>except Exception: pass\<close> around the whole loop).
\<close>

fun parse_lines ::
    "(string \<Rightarrow> json option) \<Rightarrow> (string \<Rightarrow> datetime option) \<Rightarrow> string \<Rightarrow> string
      \<Rightarrow> raw_entry list \<Rightarrow> string list \<Rightarrow> raw_entry list" where
  "parse_lines json_loads fromisoformat project_folder stem entries [] = entries"
| "parse_lines json_loads fromisoformat project_folder stem entries (l # ls) =
     (let line = strip l in
      if line = [] then parse_lines json_loads fromisoformat project_folder stem entries ls
      else
        (case json_loads line of
           None \<Rightarrow> parse_lines json_loads fromisoformat project_folder stem entries ls
         | Some obj \<Rightarrow>
            (case parse_record fromisoformat project_folder stem obj of
               Inl err \<Rightarrow> entries
             | Inr None \<Rightarrow> parse_lines json_loads fromisoformat project_folder stem entries ls
             | Inr (Some entry) \<Rightarrow>
                 parse_lines json_loads fromisoformat project_folder stem (entries @ [entry]) ls)))"

text \<open>
  A file is the name of its folder, its stem and its lines, \<open>None\<close> when it cannot be
  opened.
\<close>

record jsonl_file =
  parent_name :: string
  file_stem :: string
  file_lines :: "string list option"

definition parse_usage_from_jsonl ::
    "(string \<Rightarrow> json option) \<Rightarrow> (string \<Rightarrow> datetime option) \<Rightarrow> jsonl_file \<Rightarrow> raw_entry list" where
  "parse_usage_from_jsonl json_loads fromisoformat filepath =
     (case file_lines filepath of
        None \<Rightarrow> []
      | Some ls \<Rightarrow>
          parse_lines json_loads fromisoformat (parent_name filepath) (file_stem filepath) [] ls)"

text \<open>
  The four token counts of a record, read as the loader reads them, where the record
  has a usage object at all.
\<close>

definition token_counts :: "json \<Rightarrow> json list option" where
  "token_counts obj =
     (case ebind (dict_get obj ''message'' (JObject [])) (\<lambda>message.
             dict_get message ''usage'' (JObject [])) of
        Inr (JObject members) \<Rightarrow>
          Some (map (\<lambda>key. case map_of (rev members) key of None \<Rightarrow> JInt 0 | Some x \<Rightarrow> x)
                  [''input_tokens'', ''output_tokens'',
                   ''cache_creation_input_tokens'', ''cache_read_input_tokens''])
      | _ \<Rightarrow> None)"

definition all_counts_zero :: "json \<Rightarrow> bool" where
  "all_counts_zero obj = (case token_counts obj of None \<Rightarrow> False | Some counts \<Rightarrow> list_all eq_zero counts)"

section \<open>The per-session summary cache\<close>

record SessionCache =
  sc_session_id :: string
  sc_project_folder :: string
  sc_project_name :: string
  sc_summary :: string
  sc_modified_at :: datetime
  sc_size_bytes :: int
  sc_total_messages :: int
  sc_total_tool_calls :: int
  sc_cached_at :: datetime
  sc_file_hash :: string

record SessionSummary =
  ss_id :: string
  ss_project_folder :: string
  ss_project_name :: string
  ss_summary :: string
  ss_modified_at :: datetime
  ss_size_bytes :: int
  ss_total_messages :: int
  ss_total_tool_calls :: int

text \<open>A file on disk: its content and what \<^verbatim>\<open>stat()\<close> reports of it.\<close>

record disk_file =
  content :: string
  st_size :: int
  st_mtime :: rat

definition CACHE_TTL_MINUTES :: int where
  "CACHE_TTL_MINUTES = 5"

text \<open>
  \<^verbatim>\<open>get_file_hash\<close>. The parameter \<open>md5\<close> stands for
  \<^verbatim>\<open>hashlib.md5(f"{size}:{mtime}".encode()).hexdigest()\<close> as a function of the two numbers.
\<close>

definition get_file_hash :: "(int \<Rightarrow> rat \<Rightarrow> string) \<Rightarrow> disk_file \<Rightarrow> string" where
  "get_file_hash md5 filepath = md5 (st_size filepath) (st_mtime filepath)"

text \<open>\<^verbatim>\<open>scalar_one_or_none()\<close> on the rows a query selects.\<close>

definition scalar_one_or_none :: "'a list \<Rightarrow> py_error + 'a option" where
  "scalar_one_or_none rows =
     (case rows of [] \<Rightarrow> Inr None | [r] \<Rightarrow> Inr (Some r) | _ \<Rightarrow> Inl MultipleResultsFound)"

text \<open>
  \<^verbatim>\<open>get_cached_summary\<close>. \<open>db\<close> is the table \<^verbatim>\<open>session_cache\<close>, \<open>None\<close> when the service
  has no database; \<open>utcnow\<close> is the reading of \<^verbatim>\<open>datetime.utcnow()\<close>, a naive datetime;
  \<open>fs\<close> maps a project folder and a file name to the file
  \<^verbatim>\<open>projects_dir / project_folder / name\<close>, \<open>None\<close> when it does not exist.
\<close>

definition get_cached_summary ::
    "(int \<Rightarrow> rat \<Rightarrow> string) \<Rightarrow> (string \<times> string \<Rightarrow> disk_file option) \<Rightarrow> int
      \<Rightarrow> SessionCache list option \<Rightarrow> string \<Rightarrow> string \<Rightarrow> py_error + SessionSummary option" where
  "get_cached_summary md5 fs utcnow db session_id' project_folder =
     (case db of
        None \<Rightarrow> Inr None
      | Some rows \<Rightarrow>
          ebind (scalar_one_or_none
                   (filter (\<lambda>r. sc_session_id r = session_id' \<and> sc_project_folder r = project_folder)
                      rows)) (\<lambda>result.
          case result of
            None \<Rightarrow> Inr None
          | Some cache_entry \<Rightarrow>
              ebind (dt_sub \<lparr>ticks = utcnow, utcoffset = None\<rparr> (sc_cached_at cache_entry)) (\<lambda>age.
              if age > td_minutes CACHE_TTL_MINUTES then Inr None
              else
                (case fs (project_folder, session_id' @ ''.jsonl'') of
                   None \<Rightarrow> Inr None
                 | Some filepath \<Rightarrow>
                     if get_file_hash md5 filepath \<noteq> sc_file_hash cache_entry then Inr None
                     else
                       Inr (Some
                         \<lparr>ss_id = sc_session_id cache_entry,
                          ss_project_folder = sc_project_folder cache_entry,
                          ss_project_name = sc_project_name cache_entry,
                          ss_summary = sc_summary cache_entry,
                          ss_modified_at = sc_modified_at cache_entry,
                          ss_size_bytes = sc_size_bytes cache_entry,
                          ss_total_messages = sc_total_messages cache_entry,
                          ss_total_tool_calls = sc_total_tool_calls cache_entry\<rparr>)))))"

section \<open>The public queries\<close>

record TokenCounts =
  tc_input_tokens :: int
  tc_output_tokens :: int
  tc_cache_creation_tokens :: int
  tc_cache_read_tokens :: int

record DailyUsageListResponse =
  dr_data :: "DailyUsage list"
  dr_totals :: TokenCounts
  dr_total_cost :: rat

record SessionUsageListResponse =
  sr_data :: "SessionUsage list"
  sr_totals :: TokenCounts
  sr_total_cost :: rat
  sr_total :: int

text \<open>
  \<^verbatim>\<open>get_daily_usage\<close> and \<^verbatim>\<open>get_session_usage\<close> on the path that computes the answer
  (no database, or no fresh cache row): \<open>entries\<close> is what \<^verbatim>\<open>get_all_usage_entries\<close>
  returned. An empty string is false in \<^verbatim>\<open>if start_date:\<close>.
\<close>

definition get_daily_usage ::
    "LoadedUsageEntry list \<Rightarrow> string option \<Rightarrow> string option \<Rightarrow> py_error + DailyUsageListResponse" where
  "get_daily_usage entries start_date end_date =
     ebind (case start_date of
              None \<Rightarrow> Inr entries
            | Some s \<Rightarrow>
                if s = [] then Inr entries
                else ebind (strptime_Ymd s) (\<lambda>start_dt.
                       efilter (\<lambda>e. dt_ge (timestamp e) start_dt) entries)) (\<lambda>entries1.
     ebind (case end_date of
              None \<Rightarrow> Inr entries1
            | Some s \<Rightarrow>
                if s = [] then Inr entries1
                else ebind (strptime_Ymd s) (\<lambda>day.
                     ebind (dt_add day (td_days 1)) (\<lambda>end_dt.
                       efilter (\<lambda>e. dt_less (timestamp e) end_dt) entries1))) (\<lambda>entries2.
     let daily_data = aggregate_by_daily entries2 in
     Inr \<lparr>dr_data = daily_data,
          dr_totals =
            \<lparr>tc_input_tokens = py_sum (map du_input_tokens daily_data),
             tc_output_tokens = py_sum (map du_output_tokens daily_data),
             tc_cache_creation_tokens = py_sum (map du_cache_creation_tokens daily_data),
             tc_cache_read_tokens = py_sum (map du_cache_read_tokens daily_data)\<rparr>,
          dr_total_cost = py_sum (map du_total_cost daily_data)\<rparr>))"

text \<open>\<^verbatim>\<open>xs[:limit]\<close>: a negative limit counts from the end.\<close>

definition slice_to :: "int \<Rightarrow> 'a list \<Rightarrow> 'a list" where
  "slice_to limit xs =
     (if limit \<ge> 0 then take (nat limit) xs else take (nat (int (length xs) + limit)) xs)"

definition get_session_usage ::
    "LoadedUsageEntry list \<Rightarrow> int \<Rightarrow> py_error + SessionUsageListResponse" where
  "get_session_usage entries limit =
     ebind (aggregate_by_session entries) (\<lambda>all_sessions.
     let total = int (length all_sessions);
         session_data = slice_to limit all_sessions
     in Inr \<lparr>sr_data = session_data,
             sr_totals =
               \<lparr>tc_input_tokens = py_sum (map su_input_tokens session_data),
                tc_output_tokens = py_sum (map su_output_tokens session_data),
                tc_cache_creation_tokens = py_sum (map su_cache_creation_tokens session_data),
                tc_cache_read_tokens = py_sum (map su_cache_read_tokens session_data)\<rparr>,
             sr_total_cost = py_sum (map su_total_cost session_data),
             sr_total = total\<rparr>)"

section \<open>Notions and sample data used in the statements\<close>

text \<open>The distinct elements of a list, in the order of their first occurrence.\<close>

definition first_occurrences :: "'a list \<Rightarrow> 'a list" where
  "first_occurrences xs = rev (remdups (rev xs))"

text \<open>
  Sample entries. \<open>straddling_entries\<close>: two requests of 150000 input tokens each on
  2025-01-15 (10:00 and 11:00 UTC) to a model with tiered rates, in one session; each
  is below the threshold of 200000, their sum is above it. \<open>sample_entries\<close> adds a
  request of the next day, in another session and to another model, whose cost the log
  line carries.
\<close>

definition usage_at :: "int \<Rightarrow> string \<Rightarrow> int \<Rightarrow> string \<Rightarrow> LoadedUsageEntry" where
  "usage_at t m n sid =
     \<lparr>timestamp = utc_datetime t, input_tokens = n, output_tokens = 0,
      cache_creation_tokens = 0, cache_read_tokens = 0, cost_usd = None, model = m,
      session_id = Some sid, version = None, project_path = ''proj''\<rparr>"

definition straddling_entries :: "LoadedUsageEntry list" where
  "straddling_entries =
     [usage_at 63872532000000000 ''claude-opus-4-20250514'' 150000 ''s1'',
      usage_at 63872535600000000 ''claude-opus-4-20250514'' 150000 ''s1'']"

definition sample_entries :: "LoadedUsageEntry list" where
  "sample_entries =
     straddling_entries @
     [(usage_at 63872622000000000 ''claude-3-haiku-20240307'' 1000 ''s2'')\<lparr>cost_usd := Some (1 / 100)\<rparr>]"

text \<open>
  2025-01-15T00:00:00 as a tick count, and entries for the block examples:
  \<open>burn_entries\<close>, two requests of 5 tokens three minutes apart; \<open>gap_entries\<close>, requests
  at 00:00, 04:00 and 10:00 of that day.
\<close>

definition midnight :: int where
  "midnight = 63872496000000000"

definition burn_entries :: "LoadedUsageEntry list" where
  "burn_entries =
     [usage_at midnight ''claude-opus-4-20250514'' 5 ''s1'',
      usage_at (midnight + td_minutes 3) ''claude-opus-4-20250514'' 5 ''s1'']"

definition gap_entries :: "LoadedUsageEntry list" where
  "gap_entries =
     [usage_at midnight ''claude-opus-4-20250514'' 5 ''s1'',
      usage_at (midnight + td_hours 4) ''claude-opus-4-20250514'' 5 ''s1'',
      usage_at (midnight + td_hours 10) ''claude-opus-4-20250514'' 5 ''s1'']"

text \<open>
  Quantities the statements about a block speak of: the minutes between the first and
  the last entry, the minutes from \<open>now\<close> to the nominal end, and the block's total of
  the four token counts.
\<close>

definition duration_minutes :: "LoadedUsageEntry list \<Rightarrow> rat" where
  "duration_minutes entries =
     of_int (utc_ticks (timestamp (last entries)) - utc_ticks (timestamp (hd entries))) / 60000000"

definition minutes_until :: "datetime \<Rightarrow> datetime \<Rightarrow> rat" where
  "minutes_until end_time now = of_int (utc_ticks end_time - utc_ticks now) / 60000000"

definition block_tokens :: "SessionBlock \<Rightarrow> int" where
  "block_tokens b =
     sb_input_tokens b + sb_output_tokens b + sb_cache_creation_tokens b + sb_cache_read_tokens b"

text \<open>
  A log for the loader examples. \<open>sample_record n\<close> is an assistant record with \<open>n\<close>
  input tokens and no other tokens. \<open>sample_loads\<close> stands for \<^verbatim>\<open>json.loads\<close> on the
  lines of the example: the line written \<open>zero\<close> decodes to \<open>sample_record 0\<close>, the line
  \<open>used\<close> to \<open>sample_record 12\<close>, and no other line decodes. \<open>sample_fromisoformat\<close>
  stands for \<^verbatim>\<open>datetime.fromisoformat\<close> on the one timestamp of the example.
\<close>

definition sample_record :: "int \<Rightarrow> json" where
  "sample_record n =
     JObject
       [(''type'', JString ''assistant''),
        (''timestamp'', JString ''2025-01-15T10:00:00Z''),
        (''sessionId'', JString ''s1''),
        (''message'', JObject
           [(''model'', JString ''claude-opus-4-20250514''),
            (''usage'', JObject
               [(''input_tokens'', JInt n), (''output_tokens'', JInt 0),
                (''cache_creation_input_tokens'', JInt 0),
                (''cache_read_input_tokens'', JInt 0)])])]"

definition sample_loads :: "string \<Rightarrow> json option" where
  "sample_loads s =
     (if s = ''zero'' then Some (sample_record 0)
      else if s = ''used'' then Some (sample_record 12)
      else None)"

definition sample_fromisoformat :: "string \<Rightarrow> datetime option" where
  "sample_fromisoformat s =
     (if s = ''2025-01-15T10:00:00+00:00'' then Some (utc_datetime (midnight + td_hours 10))
      else None)"

definition sample_file :: "string list \<Rightarrow> jsonl_file" where
  "sample_file ls = \<lparr>parent_name = ''proj'', file_stem = ''s1'', file_lines = Some ls\<rparr>"

text \<open>
  The \<^verbatim>\<open>SessionSummary\<close> that \<^verbatim>\<open>get_cached_summary\<close> builds from a cache row, and data
  for the cache examples: a stored row cached at 10:00, a file system holding the
  session's file with a given size, and \<open>toy_md5\<close>, a stand-in for the digest that
  tells the sizes of the example apart.
\<close>

definition summary_of :: "SessionCache \<Rightarrow> SessionSummary" where
  "summary_of cache_entry =
     \<lparr>ss_id = sc_session_id cache_entry,
      ss_project_folder = sc_project_folder cache_entry,
      ss_project_name = sc_project_name cache_entry,
      ss_summary = sc_summary cache_entry,
      ss_modified_at = sc_modified_at cache_entry,
      ss_size_bytes = sc_size_bytes cache_entry,
      ss_total_messages = sc_total_messages cache_entry,
      ss_total_tool_calls = sc_total_tool_calls cache_entry\<rparr>"

definition toy_md5 :: "int \<Rightarrow> rat \<Rightarrow> string" where
  "toy_md5 sz mtime = str4 sz @ '':'' @ str4 \<lfloor>mtime\<rfloor>"

definition sample_row :: SessionCache where
  "sample_row =
     \<lparr>sc_session_id = ''s1'', sc_project_folder = ''proj'', sc_project_name = ''Project'',
      sc_summary = ''hello'', sc_modified_at = \<lparr>ticks = midnight, utcoffset = None\<rparr>,
      sc_size_bytes = 100, sc_total_messages = 3, sc_total_tool_calls = 1,
      sc_cached_at = \<lparr>ticks = midnight + td_hours 10, utcoffset = None\<rparr>,
      sc_file_hash = toy_md5 100 7\<rparr>"

definition sample_fs :: "int \<Rightarrow> string \<times> string \<Rightarrow> disk_file option" where
  "sample_fs sz path =
     (if path = (''proj'', ''s1.jsonl'')
      then Some \<lparr>content = ''{}'', st_size = sz, st_mtime = 7\<rparr> else None)"

section \<open>Properties of the pricing service\<close>

lemma get_model_pricing_opus_4:
  "get_model_pricing ''claude-opus-4-20250514'' =
     Some (tiered_pricing 15 75 (1875 / 100) (150 / 100) 30 (11250 / 100) (3750 / 100) 3)"
  by (simp add: get_model_pricing_def MODEL_PRICING_def)

text \<open>
  Claim C2. For every integer \<open>n\<close>, \<open>calculate_tiered_cost\<close> at the threshold 200000
  returns 0 when \<open>n \<le> 0\<close>; when \<open>n > 200000\<close> and a tiered rate exists it returns
  200000 times the base rate (0 when the base rate is absent) plus \<open>n - 200000\<close> times
  the tiered rate; otherwise it returns \<open>n\<close> times the base rate (0 when absent).
  \<open>calculate_cost\<close> is the sum of \<open>calculate_tiered_cost\<close> on the input, output,
  cache-creation and cache-read counts, each with the rates of its own category, and
  it is 0 when the model is unspecified or no pricing table resolves.
\<close>

theorem tiered_cost_and_entry_cost:
  "calculate_tiered_cost n base tiered TIERED_THRESHOLD =
     (if n \<le> 0 then 0
      else if n > 200000 \<and> tiered \<noteq> None
        then 200000 * (case base of Some b \<Rightarrow> b | None \<Rightarrow> 0) + of_int (n - 200000) * the tiered
      else of_int n * (case base of Some b \<Rightarrow> b | None \<Rightarrow> 0))
   \<and> calculate_cost i out cc cr mdl =
     (case mdl of
        None \<Rightarrow> 0
      | Some m \<Rightarrow>
         (case get_model_pricing m of
            None \<Rightarrow> 0
          | Some p \<Rightarrow>
              calculate_tiered_cost i (pr_input p) (pr_input_above_200k p) TIERED_THRESHOLD
            + calculate_tiered_cost out (pr_output p) (pr_output_above_200k p) TIERED_THRESHOLD
            + calculate_tiered_cost cc (pr_cache_creation p) (pr_cache_creation_above_200k p)
                TIERED_THRESHOLD
            + calculate_tiered_cost cr (pr_cache_read p) (pr_cache_read_above_200k p)
                TIERED_THRESHOLD))"
  by (auto simp: calculate_tiered_cost_def calculate_cost_def TIERED_THRESHOLD_def Let_def
        split: option.splits)

theorem tiered_cost_and_entry_cost_witness:
  "calculate_tiered_cost 250000 (Some (15 / 1000000)) (Some (30 / 1000000)) TIERED_THRESHOLD = 9 / 2
   \<and> calculate_tiered_cost 250000 None (Some (30 / 1000000)) TIERED_THRESHOLD = 3 / 2
   \<and> calculate_tiered_cost 250000 (Some (15 / 1000000)) None TIERED_THRESHOLD = 15 / 4
   \<and> calculate_tiered_cost (- 7) (Some (15 / 1000000)) (Some (30 / 1000000)) TIERED_THRESHOLD = 0
   \<and> calculate_cost 250000 1000 0 0 (Some ''claude-opus-4-20250514'') = 183 / 40
   \<and> calculate_cost 250000 1000 0 0 None = 0"
  using tiered_cost_and_entry_cost [of 250000 "Some (15 / 1000000)" "Some (30 / 1000000)"
      250000 1000 0 0 "Some ''claude-opus-4-20250514''"]
    tiered_cost_and_entry_cost [of 250000 None "Some (30 / 1000000)" 250000 1000 0 0 None]
    tiered_cost_and_entry_cost [of 250000 "Some (15 / 1000000)" None 0 0 0 0 None]
    tiered_cost_and_entry_cost [of "- 7" "Some (15 / 1000000)" "Some (30 / 1000000)" 0 0 0 0 None]
  by (simp add: get_model_pricing_opus_4 tiered_pricing_def calculate_tiered_cost_def
        TIERED_THRESHOLD_def)

section \<open>Sequencing, sums and grouping\<close>

lemma py_sum_foldl: "foldl (+) a xs = a + sum_list xs" for a :: "'a::monoid_add"
  by (induction xs arbitrary: a) (simp_all add: add.assoc)

lemma py_sum_eq: "py_sum xs = sum_list xs"
  by (simp add: py_sum_def py_sum_foldl)

lemma first_occurrences_snoc:
  "first_occurrences (xs @ [x]) = (if x \<in> set xs then first_occurrences xs else first_occurrences xs @ [x])"
  by (simp add: first_occurrences_def)

lemma set_first_occurrences [simp]: "set (first_occurrences xs) = set xs"
  by (simp add: first_occurrences_def)

lemma distinct_first_occurrences [simp]: "distinct (first_occurrences xs)"
  by (simp add: first_occurrences_def)

lemma append_to_group_map:
  "append_to_group k x (map (\<lambda>k'. (k', f k')) ks) =
     (if k \<in> set ks then map (\<lambda>k'. (k', if k' = k then f k' @ [x] else f k')) ks
      else map (\<lambda>k'. (k', f k')) ks @ [(k, [x])])"
  if "distinct ks"
  using that by (induction ks) auto

lemma group_by_eq:
  "group_by key xs = map (\<lambda>k. (k, filter (\<lambda>x. key x = k) xs)) (first_occurrences (map key xs))"
proof (induction xs rule: rev_induct)
  case Nil
  show ?case by (simp add: group_by_def first_occurrences_def)
next
  case (snoc x xs)
  let ?ks = "first_occurrences (map key xs)"
  have step: "group_by key (xs @ [x]) = append_to_group (key x) x (group_by key xs)"
    by (simp add: group_by_def)
  have ne: "\<forall>y\<in>set xs. key x \<noteq> key y" if "key x \<notin> set ?ks"
    using that by (metis image_eqI list.set_map set_first_occurrences)
  have nil: "filter (\<lambda>y. key y = key x) xs = []" if "key x \<notin> set ?ks"
    using ne [OF that] by (simp add: filter_empty_conv eq_commute)
  show ?case
  proof (cases "key x \<in> set ?ks")
    case True
    then show ?thesis
      unfolding step snoc.IH
      by (simp add: append_to_group_map first_occurrences_snoc) 
  next
    case False
    then show ?thesis
      unfolding step snoc.IH
      using nil ne by (simp add: append_to_group_map first_occurrences_snoc)
  qed
qed

lemma set_sorted_items_desc [simp]: "set (sorted_items_desc items) = set items"
  by (simp add: sorted_items_desc_def)

lemma daily_row_cost:
  assumes "r \<in> set (aggregate_by_daily entries)"
  shows "du_total_cost r =
    sum_list (map calculate_entry_cost
      (filter (\<lambda>e. strftime_Ymd (timestamp e) = du_date r) entries))"
  using assms by (auto simp: aggregate_by_daily_def group_by_eq py_sum_eq)

lemma monthly_row_cost:
  assumes "r \<in> set (aggregate_by_monthly entries)"
  shows "mu_total_cost r =
    sum_list (map calculate_entry_cost
      (filter (\<lambda>e. strftime_Ym (timestamp e) = mu_month r) entries))"
  using assms by (auto simp: aggregate_by_monthly_def group_by_eq py_sum_eq)

lemma ebind_Inr_iff: "ebind m f = Inr y \<longleftrightarrow> (\<exists>x. m = Inr x \<and> f x = Inr y)"
  by (cases m) (simp_all add: ebind_def)

lemma ebind_Inr [simp]: "ebind (Inr x) f = f x"
  by (simp add: ebind_def)

lemma ebind_Inl [simp]: "ebind (Inl e) f = Inl e"
  by (simp add: ebind_def)

lemma emap_Inr:
  "emap f xs = Inr ys \<Longrightarrow> list_all2 (\<lambda>x y. f x = Inr y) xs ys"
  by (induction xs arbitrary: ys) (auto simp: ebind_Inr_iff)

lemma split_colon_join:
  assumes "CHR '':'' \<in> set s"
  shows "fst (split_colon s) @ '':'' @ snd (split_colon s) = s"
proof -
  have "dropWhile (\<lambda>c. c \<noteq> CHR '':'') s \<noteq> []"
    using assms by (simp add: dropWhile_eq_Nil_conv)
  then obtain c rest where d: "dropWhile (\<lambda>c. c \<noteq> CHR '':'') s = c # rest"
    by (cases "dropWhile (\<lambda>c. c \<noteq> CHR '':'') s") auto
  then have "c = CHR '':''"
    using hd_dropWhile [of "\<lambda>c. c \<noteq> CHR '':''" s] by auto
  with d have "takeWhile (\<lambda>c. c \<noteq> CHR '':'') s @ '':'' @ rest = s"
    using takeWhile_dropWhile_id [of "\<lambda>c. c \<noteq> CHR '':''" s] by simp
  with d show ?thesis
    by (simp add: split_colon_def)
qed

lemma emap_Inr_set:
  "emap f xs = Inr ys \<Longrightarrow> y \<in> set ys \<Longrightarrow> \<exists>x\<in>set xs. f x = Inr y"
  by (induction xs arbitrary: ys) (auto simp: ebind_Inr_iff)

lemma emap_Inr_length:
  "emap f xs = Inr ys \<Longrightarrow> length ys = length xs"
  by (induction xs arbitrary: ys) (auto simp: ebind_Inr_iff)

lemma session_row_key:
  assumes "session_row (session_key e, g) = Inr r"
  shows "su_project_path r @ '':'' @ su_session_id r = session_key e"
    and "su_total_cost r = sum_list (map calculate_entry_cost g)"
proof -
  have colon: "CHR '':'' \<in> set (session_key e)"
    by (simp add: session_key_def)
  show "su_project_path r @ '':'' @ su_session_id r = session_key e"
    using assms split_colon_join [OF colon]
    by (auto simp: session_row_def ebind_Inr_iff split: prod.splits)
  show "su_total_cost r = sum_list (map calculate_entry_cost g)"
    using assms by (auto simp: session_row_def ebind_Inr_iff py_sum_eq split: prod.splits)
qed

lemma set_sort_desc_stable [simp]: "set (sort_desc_stable key xs) = set xs"
  by (simp add: sort_desc_stable_def)

lemma session_rows_from_groups:
  assumes "aggregate_by_session entries = Inr rows" and "r \<in> set rows"
  shows "\<exists>e\<in>set entries. session_row (session_key e, filter (\<lambda>x. session_key x = session_key e) entries) = Inr r"
proof -
  from assms(1) obtain ys where
    ys: "emap session_row (group_by session_key entries) = Inr ys"
    and rows: "rows = sort_desc_stable su_last_activity ys"
    by (auto simp: aggregate_by_session_def ebind_Inr_iff)
  from assms(2) rows have "r \<in> set ys" by simp
  with emap_Inr_set [OF ys] obtain item where
    "item \<in> set (group_by session_key entries)" and "session_row item = Inr r"
    by blast
  then show ?thesis
    by (auto simp: group_by_eq)
qed

lemma session_row_cost:
  assumes "aggregate_by_session entries = Inr rows" and "r \<in> set rows"
  shows "su_total_cost r =
    sum_list (map calculate_entry_cost
      (filter (\<lambda>e. session_key e = su_project_path r @ '':'' @ su_session_id r) entries))"
proof -
  from session_rows_from_groups [OF assms] obtain e where
    "session_row (session_key e, filter (\<lambda>x. session_key x = session_key e) entries) = Inr r"
    by blast
  from session_row_key [OF this] show ?thesis by simp
qed

section \<open>Properties of the aggregators\<close>

lemmas calendar_defs = date_of_def ord2ymd_def days_before_month_def days_in_month_def is_leap_def
  str4_def str2_def digit_char_def upto.simps

lemma strftime_a: "strftime_Ymd (utc_datetime 63872532000000000) = ''2025-01-15''"
  by (simp add: strftime_Ymd_def utc_datetime_def calendar_defs Let_def)

lemma strftime_b: "strftime_Ymd (utc_datetime 63872535600000000) = ''2025-01-15''"
  by (simp add: strftime_Ymd_def utc_datetime_def calendar_defs Let_def)

lemma strftime_ma: "strftime_Ym (utc_datetime 63872532000000000) = ''2025-01''"
  by (simp add: strftime_Ym_def utc_datetime_def calendar_defs Let_def)

lemma strftime_mb: "strftime_Ym (utc_datetime 63872535600000000) = ''2025-01''"
  by (simp add: strftime_Ym_def utc_datetime_def calendar_defs Let_def)

lemma entry_cost_150k:
  "calculate_entry_cost
     \<lparr>timestamp = ts, input_tokens = 150000, output_tokens = 0,
      cache_creation_tokens = 0, cache_read_tokens = 0, cost_usd = None,
      model = ''claude-opus-4-20250514'', session_id = sid, version = v, project_path = p\<rparr> = 9 / 4"
  by (simp add: calculate_entry_cost_def calculate_cost_def get_model_pricing_opus_4
      tiered_pricing_def calculate_tiered_cost_def TIERED_THRESHOLD_def)

lemma daily_straddling: "map du_total_cost (aggregate_by_daily straddling_entries) = [9 / 2]"
  by (simp add: aggregate_by_daily_def group_by_def straddling_entries_def sorted_items_desc_def
      py_sum_def entry_cost_150k strftime_a strftime_b usage_at_def)

lemma monthly_straddling: "map mu_total_cost (aggregate_by_monthly straddling_entries) = [9 / 2]"
  by (simp add: aggregate_by_monthly_def group_by_def straddling_entries_def sorted_items_desc_def
      py_sum_def entry_cost_150k strftime_ma strftime_mb usage_at_def)

lemma session_straddling:
  "map_sum id (map su_total_cost) (aggregate_by_session straddling_entries) = Inr [9 / 2]"
  by (simp add: aggregate_by_session_def group_by_def straddling_entries_def sort_desc_stable_def
      session_row_def session_key_def format_opt_def split_colon_def max_by_timestamp_def
      max_step_def dt_less_def utc_datetime_def
      py_sum_def entry_cost_150k usage_at_def)

lemma summed_cost: "calculate_cost (150000 + 150000) 0 0 0 (Some ''claude-opus-4-20250514'') = 6"
  by (simp add: calculate_cost_def get_model_pricing_opus_4
      tiered_pricing_def calculate_tiered_cost_def TIERED_THRESHOLD_def)

lemma strftime_c: "strftime_Ymd (utc_datetime 63872622000000000) = ''2025-01-16''"
  by (simp add: strftime_Ymd_def utc_datetime_def calendar_defs Let_def)

lemma strftime_mc: "strftime_Ym (utc_datetime 63872622000000000) = ''2025-01''"
  by (simp add: strftime_Ym_def utc_datetime_def calendar_defs Let_def)

lemma cost_150k: "calculate_cost 150000 0 0 0 (Some ''claude-opus-4-20250514'') = 9 / 4"
  by (simp add: calculate_cost_def get_model_pricing_opus_4
      tiered_pricing_def calculate_tiered_cost_def TIERED_THRESHOLD_def)

lemma str_le: "''2025-01-16'' \<le> ''2025-01-15'' \<longleftrightarrow> False"
  by (simp add: less_eq_char_def less_char_def)

lemma daily_sample:
  "map (\<lambda>r. (du_date r, du_total_cost r)) (aggregate_by_daily sample_entries)
     = [(''2025-01-16'', 1 / 100), (''2025-01-15'', 9 / 2)]"
  by (simp add: aggregate_by_daily_def group_by_def sample_entries_def straddling_entries_def
      sorted_items_desc_def py_sum_def cost_150k strftime_a strftime_b strftime_c usage_at_def
      calculate_entry_cost_def less_eq_char_def less_char_def)

lemma monthly_sample:
  "map (\<lambda>r. (mu_month r, mu_total_cost r)) (aggregate_by_monthly sample_entries)
     = [(''2025-01'', 451 / 100)]"
  by (simp add: aggregate_by_monthly_def group_by_def sample_entries_def straddling_entries_def
      sorted_items_desc_def py_sum_def cost_150k strftime_ma strftime_mb strftime_mc usage_at_def
      calculate_entry_cost_def)

lemma session_sample:
  "map_sum id (map (\<lambda>r. (su_project_path r, su_session_id r, su_last_activity r, su_total_cost r)))
      (aggregate_by_session sample_entries)
     = Inr [(''proj'', ''s2'', ''2025-01-16'', 1 / 100), (''proj'', ''s1'', ''2025-01-15'', 9 / 2)]"
  by (simp add: aggregate_by_session_def group_by_def sample_entries_def straddling_entries_def
      sort_desc_stable_def session_row_def session_key_def format_opt_def split_colon_def
      max_by_timestamp_def max_step_def dt_less_def utc_datetime_def
      py_sum_def cost_150k usage_at_def calculate_entry_cost_def
      strftime_a [unfolded utc_datetime_def] strftime_b [unfolded utc_datetime_def]
      strftime_c [unfolded utc_datetime_def] less_eq_char_def less_char_def)

text \<open>
  Claim C1. For every list of usage entries, the \<open>total_cost\<close> of every daily,
  monthly and session row is the sum, over the entries of that row's partition (the
  entries with the row's date, month, or \<open>project_path:session_id\<close> key), of the
  per-entry cost \<open>calculate_entry_cost\<close>: the entry's \<open>cost_usd\<close> when present,
  otherwise the pricing service's cost of that entry's own token counts. It is not the
  cost of the partition's summed token counts: for \<open>straddling_entries\<close> the daily,
  monthly and session totals are 9/2, the sum of two costs of 9/4, where the summed
  counts (300000 input tokens, above the threshold) would cost 6.
\<close>

theorem aggregate_cost_is_sum_of_entry_costs:
  "(\<forall>r\<in>set (aggregate_by_daily entries).
      du_total_cost r =
        sum_list (map calculate_entry_cost
          (filter (\<lambda>e. strftime_Ymd (timestamp e) = du_date r) entries)))
   \<and> (\<forall>r\<in>set (aggregate_by_monthly entries).
      mu_total_cost r =
        sum_list (map calculate_entry_cost
          (filter (\<lambda>e. strftime_Ym (timestamp e) = mu_month r) entries)))
   \<and> (\<forall>rows. aggregate_by_session entries = Inr rows \<longrightarrow>
        (\<forall>r\<in>set rows.
           su_total_cost r =
             sum_list (map calculate_entry_cost
               (filter (\<lambda>e. session_key e = su_project_path r @ '':'' @ su_session_id r) entries))))
   \<and> map du_total_cost (aggregate_by_daily straddling_entries) = [9 / 2]
   \<and> map mu_total_cost (aggregate_by_monthly straddling_entries) = [9 / 2]
   \<and> map_sum id (map su_total_cost) (aggregate_by_session straddling_entries) = Inr [9 / 2]
   \<and> calculate_cost (py_sum (map input_tokens straddling_entries))
        (py_sum (map output_tokens straddling_entries))
        (py_sum (map cache_creation_tokens straddling_entries))
        (py_sum (map cache_read_tokens straddling_entries))
        (Some ''claude-opus-4-20250514'') = 6"
proof (intro conjI ballI allI impI)
  show "calculate_cost (py_sum (map input_tokens straddling_entries))
        (py_sum (map output_tokens straddling_entries))
        (py_sum (map cache_creation_tokens straddling_entries))
        (py_sum (map cache_read_tokens straddling_entries))
        (Some ''claude-opus-4-20250514'') = 6"
    using summed_cost by (simp add: straddling_entries_def usage_at_def py_sum_def)
qed (simp_all add: daily_row_cost monthly_row_cost session_row_cost
      daily_straddling monthly_straddling session_straddling)

theorem aggregate_cost_is_sum_of_entry_costs_witness:
  "map (\<lambda>r. (du_date r, du_total_cost r)) (aggregate_by_daily sample_entries)
     = [(''2025-01-16'', 1 / 100), (''2025-01-15'', 9 / 2)]
   \<and> map (\<lambda>r. (mu_month r, mu_total_cost r)) (aggregate_by_monthly sample_entries)
     = [(''2025-01'', 451 / 100)]
   \<and> map_sum id (map (\<lambda>r. (su_project_path r, su_session_id r, su_last_activity r, su_total_cost r)))
      (aggregate_by_session sample_entries)
     = Inr [(''proj'', ''s2'', ''2025-01-16'', 1 / 100), (''proj'', ''s1'', ''2025-01-15'', 9 / 2)]
   \<and> sum_list (map calculate_entry_cost
        (filter (\<lambda>e. strftime_Ymd (timestamp e) = ''2025-01-15'') sample_entries)) = 9 / 2"
proof -
  have rows: "\<forall>r\<in>set (aggregate_by_daily sample_entries).
      du_total_cost r =
        sum_list (map calculate_entry_cost
          (filter (\<lambda>e. strftime_Ymd (timestamp e) = du_date r) sample_entries))"
    using aggregate_cost_is_sum_of_entry_costs [of sample_entries] by blast
  obtain r1 r2 where agg: "aggregate_by_daily sample_entries = [r1, r2]"
    and r2: "du_date r2 = ''2025-01-15''" "du_total_cost r2 = 9 / 2"
    using daily_sample by auto
  from rows agg r2 have
    "sum_list (map calculate_entry_cost
        (filter (\<lambda>e. strftime_Ymd (timestamp e) = ''2025-01-15'') sample_entries)) = 9 / 2"
    by auto
  then show ?thesis
    by (simp add: daily_sample monthly_sample session_sample)
qed

lemma add_entry_models:
  "map mb_model (add_entry e ds) =
     (if model e \<in> set (map mb_model ds) then map mb_model ds else map mb_model ds @ [model e])"
  by (induction ds) auto

lemma aggregate_model_breakdowns_models:
  "map mb_model (aggregate_model_breakdowns entries) = first_occurrences (map model entries)"
proof (induction entries rule: rev_induct)
  case Nil
  show ?case by (simp add: aggregate_model_breakdowns_def first_occurrences_def)
next
  case (snoc e entries)
  have "aggregate_model_breakdowns (entries @ [e])
          = add_entry e (aggregate_model_breakdowns entries)"
    by (simp add: aggregate_model_breakdowns_def)
  then show ?case
    using snoc.IH by (simp add: add_entry_models first_occurrences_snoc)
qed

text \<open>
  Claim C8, as amended. For every list of usage entries, the list that
  \<open>aggregate_model_breakdowns\<close> returns has exactly one row per distinct model seen,
  and its order is determined by the input: the rows stand in the order in which their
  models first occur in the entry list. (The rows are not sorted by model name.)
\<close>

theorem model_breakdown_rows_in_order_of_first_use:
  "map mb_model (aggregate_model_breakdowns entries) = first_occurrences (map model entries)
   \<and> distinct (map mb_model (aggregate_model_breakdowns entries))
   \<and> set (map mb_model (aggregate_model_breakdowns entries)) = set (map model entries)"
  by (simp only: aggregate_model_breakdowns_models distinct_first_occurrences
      set_first_occurrences simp_thms)

theorem model_breakdown_rows_in_order_of_first_use_witness:
  "map mb_model (aggregate_model_breakdowns (sample_entries @ straddling_entries))
     = [''claude-opus-4-20250514'', ''claude-3-haiku-20240307'']"
  using model_breakdown_rows_in_order_of_first_use [of "sample_entries @ straddling_entries"]
  by (simp add: first_occurrences_def sample_entries_def straddling_entries_def usage_at_def)

text \<open>
  The claim as stated (rows sorted by model name) fails on \<open>sample_entries\<close>, where
  \<^verbatim>\<open>claude-opus-4-20250514\<close> is seen before \<^verbatim>\<open>claude-3-haiku-20240307\<close>.
\<close>

theorem model_breakdown_not_sorted_counterexample:
  "map mb_model (aggregate_model_breakdowns sample_entries)
     = [''claude-opus-4-20250514'', ''claude-3-haiku-20240307'']
   \<and> \<not> sorted (map mb_model (aggregate_model_breakdowns sample_entries))"
  by (simp add: aggregate_model_breakdowns_def sample_entries_def
      straddling_entries_def usage_at_def less_eq_char_def less_char_def)

section \<open>Properties of the session blocks\<close>

lemma floor_rat_numeral [simp]: "\<lfloor>(numeral a :: rat) / numeral b\<rfloor> = numeral a div numeral b"
  using floor_divide_of_int_eq [of "numeral a" "numeral b", where ?'a = rat] by simp

lemma floor_rat_one [simp]: "\<lfloor>(1 :: rat) / numeral b\<rfloor> = 1 div numeral b"
  using floor_divide_of_int_eq [of 1 "numeral b", where ?'a = rat] by simp

lemma dt_sub_Inr:
  "dt_sub a b = Inr d \<Longrightarrow> d = utc_ticks a - utc_ticks b \<and> (utcoffset a = None \<longleftrightarrow> utcoffset b = None)"
  by (auto simp: dt_sub_def utc_ticks_def split: option.splits)

lemma dt_less_Inr:
  "dt_less a b = Inr c \<Longrightarrow> c = (utc_ticks a < utc_ticks b) \<and> (utcoffset a = None \<longleftrightarrow> utcoffset b = None)"
  by (auto simp: dt_less_def utc_ticks_def split: option.splits)

lemma dt_add_Inr:
  "dt_add a td = Inr b \<Longrightarrow> b = a\<lparr>ticks := ticks a + td\<rparr> \<and> utc_ticks b = utc_ticks a + td"
  by (auto simp: dt_add_def utc_ticks_def Let_def split: option.splits if_splits)

lemma py_truediv_Inr: "py_truediv a b = Inr c \<longleftrightarrow> b \<noteq> 0 \<and> c = a / b"
  by (auto simp: py_truediv_def)

lemma project_block_Inr:
  assumes "project_block end_time now entries total_tokens cost = Inr p"
  shows "p =
     (if utc_ticks (timestamp (last entries)) - utc_ticks (timestamp (hd entries)) > 0
      then Some
        \<lparr>pj_burn_rate_tokens =
           of_int total_tokens
             / (of_int (utc_ticks (timestamp (last entries)) - utc_ticks (timestamp (hd entries)))
                / 60000000),
         pj_burn_rate_cost =
           cost
             / (of_int (utc_ticks (timestamp (last entries)) - utc_ticks (timestamp (hd entries)))
                / 60000000) * 60,
         pj_projected_tokens =
           py_int (of_int total_tokens
             + of_int total_tokens
               / (of_int (utc_ticks (timestamp (last entries)) - utc_ticks (timestamp (hd entries)))
                  / 60000000)
               * of_int (max 0 (py_int (of_int (utc_ticks end_time - utc_ticks now) / 60000000)))),
         pj_projected_cost =
           py_round2 (cost
             + cost
               / (of_int (utc_ticks (timestamp (last entries)) - utc_ticks (timestamp (hd entries)))
                  / 60000000) * 60 / 60
               * of_int (max 0 (py_int (of_int (utc_ticks end_time - utc_ticks now) / 60000000)))),
         pj_remaining_minutes =
           max 0 (py_int (of_int (utc_ticks end_time - utc_ticks now) / 60000000))\<rparr>
      else None)"
proof -
  from assms obtain span where
    span: "dt_sub (timestamp (last entries)) (timestamp (hd entries)) = Inr span"
    by (auto simp: project_block_def ebind_Inr_iff)
  then have span_eq: "span = utc_ticks (timestamp (last entries)) - utc_ticks (timestamp (hd entries))"
    by (auto dest: dt_sub_Inr)
  show ?thesis
  proof (cases "span > 0")
    case False
    with assms span show ?thesis
      by (simp add: project_block_def total_seconds_def span_eq [symmetric])
  next
    case True
    with assms span obtain remaining where
      rem: "dt_sub end_time now = Inr remaining"
      by (auto simp: project_block_def total_seconds_def ebind_Inr_iff Let_def)
    then have rem_eq: "remaining = utc_ticks end_time - utc_ticks now"
      by (auto dest: dt_sub_Inr)
    from True assms span rem show ?thesis
      by (simp add: project_block_def total_seconds_def py_truediv_def Let_def
          span_eq [symmetric] rem_eq [symmetric] mult.commute)
  qed
qed

lemma project_block_no_zero_division:
  "project_block end_time now entries total_tokens cost \<noteq> Inl ZeroDivisionError"
  by (auto simp: project_block_def ebind_def Let_def py_truediv_def dt_sub_def total_seconds_def
      split: sum.splits option.splits)

lemma create_block_Inr:
  assumes "create_block start_time entries now = Inr b"
  obtains end_time is_active p where
    "dt_add start_time (td_hours 5) = Inr end_time"
    and "ebind (dt_sub now (if entries = [] then start_time else timestamp (last entries)))
           (\<lambda>since_last. if since_last < td_hours 5 then dt_less now end_time else Inr False)
         = Inr is_active"
    and "(if is_active \<and> length entries > 1
          then project_block end_time now entries
                 (sum_list (map input_tokens entries) + sum_list (map output_tokens entries)
                  + sum_list (map cache_creation_tokens entries)
                  + sum_list (map cache_read_tokens entries))
                 (sum_list (map calculate_entry_cost entries))
          else Inr None) = Inr p"
    and "b = \<lparr>sb_id = BlockId start_time,
           sb_start_time = start_time,
           sb_end_time = end_time,
           sb_actual_end_time = Some (if entries = [] then start_time else timestamp (last entries)),
           sb_is_active = is_active,
           sb_is_gap = False,
           sb_input_tokens = sum_list (map input_tokens entries),
           sb_output_tokens = sum_list (map output_tokens entries),
           sb_cache_creation_tokens = sum_list (map cache_creation_tokens entries),
           sb_cache_read_tokens = sum_list (map cache_read_tokens entries),
           sb_cost_usd = sum_list (map calculate_entry_cost entries),
           sb_models = set (map model entries),
           burn_rate_tokens_per_minute = map_option pj_burn_rate_tokens p,
           burn_rate_cost_per_hour = map_option pj_burn_rate_cost p,
           projected_total_tokens = map_option pj_projected_tokens p,
           projected_total_cost = map_option pj_projected_cost p,
           remaining_minutes = map_option pj_remaining_minutes p\<rparr>"
proof -
  from assms obtain end_time is_active p where
    "dt_add start_time (td_hours 5) = Inr end_time"
    "ebind (dt_sub now (if entries = [] then start_time else timestamp (last entries)))
           (\<lambda>since_last. if since_last < td_hours 5 then dt_less now end_time else Inr False)
         = Inr is_active"
    "(if is_active \<and> length entries > 1
          then project_block end_time now entries
                 (sum_list (map input_tokens entries) + sum_list (map output_tokens entries)
                  + sum_list (map cache_creation_tokens entries)
                  + sum_list (map cache_read_tokens entries))
                 (sum_list (map calculate_entry_cost entries))
          else Inr None) = Inr p"
    "Inr \<lparr>sb_id = BlockId start_time,
           sb_start_time = start_time,
           sb_end_time = end_time,
           sb_actual_end_time = Some (if entries = [] then start_time else timestamp (last entries)),
           sb_is_active = is_active,
           sb_is_gap = False,
           sb_input_tokens = sum_list (map input_tokens entries),
           sb_output_tokens = sum_list (map output_tokens entries),
           sb_cache_creation_tokens = sum_list (map cache_creation_tokens entries),
           sb_cache_read_tokens = sum_list (map cache_read_tokens entries),
           sb_cost_usd = sum_list (map calculate_entry_cost entries),
           sb_models = set (map model entries),
           burn_rate_tokens_per_minute = map_option pj_burn_rate_tokens p,
           burn_rate_cost_per_hour = map_option pj_burn_rate_cost p,
           projected_total_tokens = map_option pj_projected_tokens p,
           projected_total_cost = map_option pj_projected_cost p,
           remaining_minutes = map_option pj_remaining_minutes p\<rparr> = (Inr b :: py_error + SessionBlock)"
    unfolding create_block_def Let_def ebind_Inr_iff [of _ _ b] SESSION_DURATION_HOURS_def py_sum_eq
    by blast
  then show ?thesis
    using that by simp
qed

lemma create_block_end_time:
  assumes "create_block start_time entries now = Inr b"
  shows "dt_add start_time (td_hours 5) = Inr (sb_end_time b)"
  using assms by (elim create_block_Inr) simp

lemma create_block_active:
  assumes "create_block start_time entries now = Inr b"
  shows "sb_is_active b \<longleftrightarrow>
     utc_ticks now - utc_ticks (if entries = [] then start_time else timestamp (last entries)) < td_hours 5
     \<and> utc_ticks now < utc_ticks (sb_end_time b)"
  using assms
proof (elim create_block_Inr)
  fix end_time is_active p
  assume a: "ebind (dt_sub now (if entries = [] then start_time else timestamp (last entries)))
           (\<lambda>since_last. if since_last < td_hours 5 then dt_less now end_time else Inr False)
         = Inr is_active"
    and b: "b = \<lparr>sb_id = BlockId start_time,
           sb_start_time = start_time,
           sb_end_time = end_time,
           sb_actual_end_time = Some (if entries = [] then start_time else timestamp (last entries)),
           sb_is_active = is_active,
           sb_is_gap = False,
           sb_input_tokens = sum_list (map input_tokens entries),
           sb_output_tokens = sum_list (map output_tokens entries),
           sb_cache_creation_tokens = sum_list (map cache_creation_tokens entries),
           sb_cache_read_tokens = sum_list (map cache_read_tokens entries),
           sb_cost_usd = sum_list (map calculate_entry_cost entries),
           sb_models = set (map model entries),
           burn_rate_tokens_per_minute = map_option pj_burn_rate_tokens p,
           burn_rate_cost_per_hour = map_option pj_burn_rate_cost p,
           projected_total_tokens = map_option pj_projected_tokens p,
           projected_total_cost = map_option pj_projected_cost p,
           remaining_minutes = map_option pj_remaining_minutes p\<rparr>"
  have "is_active \<longleftrightarrow>
     utc_ticks now - utc_ticks (if entries = [] then start_time else timestamp (last entries)) < td_hours 5
     \<and> utc_ticks now < utc_ticks end_time"
    using a by (auto simp: ebind_Inr_iff split: if_splits dest!: dt_sub_Inr dt_less_Inr)
  then show ?thesis
    by (simp add: b)
qed

text \<open>
  Claim C4. For every non-gap block (a result of \<open>create_block\<close>, here with at least
  one entry) and every reference time \<open>now\<close>: the nominal end is the start plus 5
  hours, and \<open>is_active\<close> is true if and only if \<open>now\<close> is before the nominal end and
  the time from the block's last entry to \<open>now\<close> is less than 5 hours. So a block
  whose last entry is 3 hours before \<open>now\<close> and whose nominal window has not elapsed is
  active, and one whose last entry is 6 hours before \<open>now\<close> is not. Times are compared
  as instants (\<open>utc_ticks\<close>).
\<close>

theorem block_is_active_iff:
  assumes "create_block start_time entries now = Inr b" and "entries \<noteq> []"
  shows "utc_ticks (sb_end_time b) = utc_ticks start_time + td_hours 5
     \<and> (sb_is_active b \<longleftrightarrow>
          utc_ticks now < utc_ticks (sb_end_time b)
          \<and> utc_ticks now - utc_ticks (timestamp (last entries)) < td_hours 5)
     \<and> (utc_ticks now < utc_ticks (sb_end_time b)
          \<and> utc_ticks now - utc_ticks (timestamp (last entries)) = td_hours 3
          \<longrightarrow> sb_is_active b)
     \<and> (utc_ticks now - utc_ticks (timestamp (last entries)) = td_hours 6
          \<longrightarrow> \<not> sb_is_active b)"
proof -
  have e: "utc_ticks (sb_end_time b) = utc_ticks start_time + td_hours 5"
    using create_block_end_time [OF assms(1)] by (auto dest: dt_add_Inr)
  have a: "sb_is_active b \<longleftrightarrow>
          utc_ticks now < utc_ticks (sb_end_time b)
          \<and> utc_ticks now - utc_ticks (timestamp (last entries)) < td_hours 5"
    using create_block_active [OF assms(1)] assms(2) by auto
  show ?thesis
    using e a by (simp add: td_hours_def)
qed

lemmas time_defs = utc_datetime_def dt_add_def dt_sub_def dt_less_def
      td_hours_def td_minutes_def midnight_def MAX_TICKS_def SESSION_DURATION_HOURS_def

lemma cb_ex3: "\<exists>b. create_block (utc_datetime (midnight + td_hours 10))
      [usage_at (midnight + td_hours 10 + td_minutes 30) ''claude-opus-4-20250514'' 150000 ''s1'']
      (utc_datetime (midnight + td_hours 13 + td_minutes 30)) = Inr b"
  by (simp add: create_block_def usage_at_def time_defs Let_def)

lemma cb_ex6: "\<exists>b. create_block (utc_datetime (midnight + td_hours 10))
      [usage_at (midnight + td_hours 10 + td_minutes 30) ''claude-opus-4-20250514'' 150000 ''s1'']
      (utc_datetime (midnight + td_hours 16 + td_minutes 30)) = Inr b"
  by (simp add: create_block_def usage_at_def time_defs Let_def)

theorem block_is_active_iff_witness:
  "(\<exists>b. create_block (utc_datetime (midnight + td_hours 10))
      [usage_at (midnight + td_hours 10 + td_minutes 30) ''claude-opus-4-20250514'' 150000 ''s1'']
      (utc_datetime (midnight + td_hours 13 + td_minutes 30)) = Inr b \<and> sb_is_active b)
   \<and> (\<exists>b. create_block (utc_datetime (midnight + td_hours 10))
      [usage_at (midnight + td_hours 10 + td_minutes 30) ''claude-opus-4-20250514'' 150000 ''s1'']
      (utc_datetime (midnight + td_hours 16 + td_minutes 30)) = Inr b \<and> \<not> sb_is_active b)"
proof -
  let ?S = "utc_datetime (midnight + td_hours 10)"
  let ?E = "[usage_at (midnight + td_hours 10 + td_minutes 30) ''claude-opus-4-20250514'' 150000 ''s1'']"
  obtain b3 where b3: "create_block ?S ?E (utc_datetime (midnight + td_hours 13 + td_minutes 30)) = Inr b3"
    using cb_ex3 by blast
  obtain b6 where b6: "create_block ?S ?E (utc_datetime (midnight + td_hours 16 + td_minutes 30)) = Inr b6"
    using cb_ex6 by blast
  have ne: "?E \<noteq> []" by simp
  have "sb_is_active b3"
    using block_is_active_iff [OF b3 ne]
    by (simp add: utc_ticks_def utc_datetime_def usage_at_def td_hours_def td_minutes_def)
  moreover have "\<not> sb_is_active b6"
    using block_is_active_iff [OF b6 ne]
    by (simp add: utc_ticks_def utc_datetime_def usage_at_def td_hours_def td_minutes_def)
  ultimately show ?thesis
    using b3 b6 by blast
qed

lemma create_block_no_zero_division:
  "create_block start_time entries now \<noteq> Inl ZeroDivisionError"
proof -
  have 1: "dt_add a t \<noteq> Inl ZeroDivisionError" for a t
    by (simp add: dt_add_def Let_def)
  have 2: "dt_sub a c \<noteq> Inl ZeroDivisionError" for a c
    by (simp add: dt_sub_def split: option.splits)
  have 3: "dt_less a c \<noteq> Inl ZeroDivisionError" for a c
    by (simp add: dt_less_def split: option.splits)
  have 4: "ebind m f = Inl ZeroDivisionError \<longleftrightarrow>
      m = Inl ZeroDivisionError \<or> (\<exists>x. m = Inr x \<and> f x = Inl ZeroDivisionError)"
    for m :: "py_error + 'x" and f :: "'x \<Rightarrow> py_error + 'y"
    by (cases m) (simp_all add: ebind_def)
  show ?thesis
    unfolding create_block_def Let_def
    by (auto simp: 1 2 3 4 project_block_no_zero_division)
qed

lemma create_block_totals:
  assumes "create_block start_time entries now = Inr b"
  shows "sb_input_tokens b = sum_list (map input_tokens entries)"
    and "sb_output_tokens b = sum_list (map output_tokens entries)"
    and "sb_cache_creation_tokens b = sum_list (map cache_creation_tokens entries)"
    and "sb_cache_read_tokens b = sum_list (map cache_read_tokens entries)"
    and "sb_cost_usd b = sum_list (map calculate_entry_cost entries)"
  using assms by (elim create_block_Inr, simp)+

lemma create_block_projection:
  assumes "create_block start_time entries now = Inr b"
  shows
    "if sb_is_active b \<and> length entries \<ge> 2 \<and> duration_minutes entries > 0
     then
       burn_rate_tokens_per_minute b = Some (of_int (block_tokens b) / duration_minutes entries)
       \<and> burn_rate_cost_per_hour b = Some (sb_cost_usd b / duration_minutes entries * 60)
       \<and> remaining_minutes b = Some (max 0 (py_int (minutes_until (sb_end_time b) now)))
       \<and> projected_total_tokens b =
           Some (py_int (of_int (block_tokens b)
                   + of_int (block_tokens b) / duration_minutes entries
                     * of_int (max 0 (py_int (minutes_until (sb_end_time b) now)))))
       \<and> projected_total_cost b =
           Some (py_round2 (sb_cost_usd b
                   + sb_cost_usd b / duration_minutes entries * 60 / 60
                     * of_int (max 0 (py_int (minutes_until (sb_end_time b) now)))))
     else
       burn_rate_tokens_per_minute b = None \<and> burn_rate_cost_per_hour b = None
       \<and> remaining_minutes b = None \<and> projected_total_tokens b = None
       \<and> projected_total_cost b = None"
  using assms
proof (elim create_block_Inr)
  fix end_time is_active p
  assume p: "(if is_active \<and> length entries > 1
          then project_block end_time now entries
                 (sum_list (map input_tokens entries) + sum_list (map output_tokens entries)
                  + sum_list (map cache_creation_tokens entries)
                  + sum_list (map cache_read_tokens entries))
                 (sum_list (map calculate_entry_cost entries))
          else Inr None) = Inr p"
    and b: "b = \<lparr>sb_id = BlockId start_time,
           sb_start_time = start_time,
           sb_end_time = end_time,
           sb_actual_end_time = Some (if entries = [] then start_time else timestamp (last entries)),
           sb_is_active = is_active,
           sb_is_gap = False,
           sb_input_tokens = sum_list (map input_tokens entries),
           sb_output_tokens = sum_list (map output_tokens entries),
           sb_cache_creation_tokens = sum_list (map cache_creation_tokens entries),
           sb_cache_read_tokens = sum_list (map cache_read_tokens entries),
           sb_cost_usd = sum_list (map calculate_entry_cost entries),
           sb_models = set (map model entries),
           burn_rate_tokens_per_minute = map_option pj_burn_rate_tokens p,
           burn_rate_cost_per_hour = map_option pj_burn_rate_cost p,
           projected_total_tokens = map_option pj_projected_tokens p,
           projected_total_cost = map_option pj_projected_cost p,
           remaining_minutes = map_option pj_remaining_minutes p\<rparr>"
  have dur: "duration_minutes entries > 0 \<longleftrightarrow>
      utc_ticks (timestamp (last entries)) - utc_ticks (timestamp (hd entries)) > 0"
    by (simp add: duration_minutes_def)
  show ?thesis
  proof (cases "is_active \<and> length entries > 1")
    case False
    with p have "p = None" by auto
    with False show ?thesis by (auto simp: b)
  next
    case True
    with p have "project_block end_time now entries
                 (sum_list (map input_tokens entries) + sum_list (map output_tokens entries)
                  + sum_list (map cache_creation_tokens entries)
                  + sum_list (map cache_read_tokens entries))
                 (sum_list (map calculate_entry_cost entries)) = Inr p"
      by simp
    from project_block_Inr [OF this] True show ?thesis
      by (simp add: b dur block_tokens_def duration_minutes_def minutes_until_def)
  qed
qed

text \<open>
  Claim C5, as amended. \<open>create_block\<close> never raises \<^verbatim>\<open>ZeroDivisionError\<close>, and for every
  block it returns: the five projection fields are present when the block is active,
  has at least 2 entries and the time between its first and last entry is positive,
  and are all absent otherwise. When present, \<open>burn_rate_tokens_per_minute\<close> is the
  total tokens divided by \<open>duration_minutes\<close>; \<open>burn_rate_cost_per_hour\<close> is the total
  cost divided by \<open>duration_minutes\<close>, times 60; \<open>remaining_minutes\<close> is the maximum of 0
  and the minutes until the nominal end truncated to a whole number;
  \<open>projected_total_tokens\<close> is the total tokens plus the token burn rate times
  \<open>remaining_minutes\<close>, truncated to an integer; \<open>projected_total_cost\<close> is the total
  cost plus the cost burn rate per minute (the hourly rate divided by 60) times
  \<open>remaining_minutes\<close>, rounded to 2 decimal places.
\<close>

theorem burn_rate_projection:
  "create_block start_time entries now \<noteq> Inl ZeroDivisionError
   \<and> (\<forall>b. create_block start_time entries now = Inr b \<longrightarrow>
       (if sb_is_active b \<and> length entries \<ge> 2 \<and> duration_minutes entries > 0
        then
          burn_rate_tokens_per_minute b = Some (of_int (block_tokens b) / duration_minutes entries)
          \<and> burn_rate_cost_per_hour b = Some (sb_cost_usd b / duration_minutes entries * 60)
          \<and> remaining_minutes b = Some (max 0 (py_int (minutes_until (sb_end_time b) now)))
          \<and> projected_total_tokens b =
              Some (py_int (of_int (block_tokens b)
                      + of_int (block_tokens b) / duration_minutes entries
                        * of_int (max 0 (py_int (minutes_until (sb_end_time b) now)))))
          \<and> projected_total_cost b =
              Some (py_round2 (sb_cost_usd b
                      + sb_cost_usd b / duration_minutes entries * 60 / 60
                        * of_int (max 0 (py_int (minutes_until (sb_end_time b) now)))))
        else
          burn_rate_tokens_per_minute b = None \<and> burn_rate_cost_per_hour b = None
          \<and> remaining_minutes b = None \<and> projected_total_tokens b = None
          \<and> projected_total_cost b = None))"
  using create_block_no_zero_division create_block_projection by blast

lemma cost_5: "calculate_cost 5 0 0 0 (Some ''claude-opus-4-20250514'') = 3 / 40000"
  by (simp add: calculate_cost_def get_model_pricing_opus_4
      tiered_pricing_def calculate_tiered_cost_def TIERED_THRESHOLD_def)

lemma burn_block:
  "create_block (utc_datetime midnight) burn_entries (utc_datetime (midnight + td_hours 4 + td_minutes 59)) =
     Inr \<lparr>sb_id = BlockId (utc_datetime midnight),
           sb_start_time = utc_datetime midnight,
           sb_end_time = utc_datetime (midnight + td_hours 5),
           sb_actual_end_time = Some (utc_datetime (midnight + td_minutes 3)),
           sb_is_active = True,
           sb_is_gap = False,
           sb_input_tokens = 10,
           sb_output_tokens = 0,
           sb_cache_creation_tokens = 0,
           sb_cache_read_tokens = 0,
           sb_cost_usd = 3 / 20000,
           sb_models = {''claude-opus-4-20250514''},
           burn_rate_tokens_per_minute = Some (10 / 3),
           burn_rate_cost_per_hour = Some (3 / 1000),
           projected_total_tokens = Some 13,
           projected_total_cost = Some 0,
           remaining_minutes = Some 1\<rparr>"
  by (simp add: create_block_def project_block_def burn_entries_def usage_at_def time_defs Let_def
      py_sum_def calculate_entry_cost_def cost_5 total_seconds_def py_truediv_def py_int_def
      py_round2_def)

theorem burn_rate_projection_witness:
  "\<exists>b. create_block (utc_datetime midnight) burn_entries (utc_datetime (midnight + td_hours 4 + td_minutes 59)) = Inr b
     \<and> sb_is_active b \<and> length burn_entries \<ge> 2 \<and> duration_minutes burn_entries = 3
     \<and> burn_rate_tokens_per_minute b = Some (10 / 3)
     \<and> burn_rate_cost_per_hour b = Some (3 / 1000)
     \<and> remaining_minutes b = Some 1
     \<and> projected_total_tokens b = Some 13
     \<and> projected_total_cost b = Some 0"
proof -
  let ?now = "utc_datetime (midnight + td_hours 4 + td_minutes 59)"
  obtain b where b: "create_block (utc_datetime midnight) burn_entries ?now = Inr b"
    using burn_block by blast
  have act: "sb_is_active b" and toks: "block_tokens b = 10" and cost: "sb_cost_usd b = 3 / 20000"
    and fin: "sb_end_time b = utc_datetime (midnight + td_hours 5)"
    using b by (auto simp: burn_block block_tokens_def)
  have len: "length burn_entries \<ge> 2"
    by (simp add: burn_entries_def)
  have dur: "duration_minutes burn_entries = 3"
    by (simp add: duration_minutes_def burn_entries_def usage_at_def utc_ticks_def utc_datetime_def
        td_minutes_def)
  have left: "max 0 (py_int (minutes_until (sb_end_time b) ?now)) = 1"
    by (simp add: fin minutes_until_def utc_ticks_def utc_datetime_def td_hours_def td_minutes_def
        py_int_def)
  from burn_rate_projection [of "utc_datetime midnight" burn_entries ?now] b
  have "burn_rate_tokens_per_minute b = Some (10 / 3)
     \<and> burn_rate_cost_per_hour b = Some (3 / 1000)
     \<and> remaining_minutes b = Some 1
     \<and> projected_total_tokens b = Some 13
     \<and> projected_total_cost b = Some 0"
    by (simp add: act len dur left toks cost py_round2_def; simp add: py_int_def)
  with b act len dur show ?thesis
    by blast
qed

text \<open>
  The claim as stated (projected tokens = current tokens + burn rate \<times> remaining minutes)
  fails on \<open>burn_entries\<close> at 04:59: 10 tokens in 3 minutes and 1 minute left give
  a projection of 13 tokens, not 10 + 10/3.
\<close>

theorem projected_tokens_truncated_counterexample:
  "map_sum id burn_rate_tokens_per_minute
     (create_block (utc_datetime midnight) burn_entries (utc_datetime (midnight + td_hours 4 + td_minutes 59)))
     = Inr (Some (10 / 3))
   \<and> map_sum id remaining_minutes
     (create_block (utc_datetime midnight) burn_entries (utc_datetime (midnight + td_hours 4 + td_minutes 59)))
     = Inr (Some 1)
   \<and> map_sum id block_tokens
     (create_block (utc_datetime midnight) burn_entries (utc_datetime (midnight + td_hours 4 + td_minutes 59)))
     = Inr 10
   \<and> map_sum id projected_total_tokens
     (create_block (utc_datetime midnight) burn_entries (utc_datetime (midnight + td_hours 4 + td_minutes 59)))
     = Inr (Some 13)
   \<and> (of_int 13 :: rat) \<noteq> of_int 10 + (10 / 3) * of_int 1"
  by (simp add: burn_block block_tokens_def)

lemma sorted_gap_entries: "sorted_by_timestamp gap_entries = Inr gap_entries"
  by (simp add: sorted_by_timestamp_def gap_entries_def usage_at_def is_naive_def utc_datetime_def
      utc_ticks_def midnight_def td_hours_def)

lemma gap_example:
  "map_sum id (map (\<lambda>b. (sb_is_gap b, sb_start_time b, sb_end_time b, sb_actual_end_time b)))
     (identify_session_blocks clock gap_entries) =
   Inr [(False, utc_datetime midnight, utc_datetime (midnight + td_hours 5), Some (utc_datetime (midnight + td_hours 4))),
        (True, utc_datetime (midnight + td_hours 9), utc_datetime (midnight + td_hours 10), None),
        (False, utc_datetime (midnight + td_hours 10), utc_datetime (midnight + td_hours 15),
           Some (utc_datetime (midnight + td_hours 10)))]"
  unfolding identify_session_blocks_def sorted_gap_entries
  by (simp add: gap_entries_def segment_step_def create_block_def create_gap_block_def
      project_block_def floor_to_hour_def session_duration_ms_def total_seconds_def py_truediv_def
      usage_at_def time_defs Let_def)

lemma create_gap_block_Inr:
  assumes "create_gap_block last_activity next_activity = Inr g"
  shows "g = (if utc_ticks next_activity - utc_ticks last_activity \<le> td_hours 5 then None
              else Some
          \<lparr>sb_id = GapId (last_activity\<lparr>ticks := ticks last_activity + td_hours 5\<rparr>),
           sb_start_time = last_activity\<lparr>ticks := ticks last_activity + td_hours 5\<rparr>,
           sb_end_time = next_activity,
           sb_actual_end_time = None,
           sb_is_active = False,
           sb_is_gap = True,
           sb_input_tokens = 0,
           sb_output_tokens = 0,
           sb_cache_creation_tokens = 0,
           sb_cache_read_tokens = 0,
           sb_cost_usd = 0,
           sb_models = {},
           burn_rate_tokens_per_minute = None,
           burn_rate_cost_per_hour = None,
           projected_total_tokens = None,
           projected_total_cost = None,
           remaining_minutes = None\<rparr>)"
proof -
  from assms obtain d where d: "dt_sub next_activity last_activity = Inr d"
    by (auto simp: create_gap_block_def ebind_Inr_iff Let_def)
  then have d_eq: "d = utc_ticks next_activity - utc_ticks last_activity"
    by (auto dest: dt_sub_Inr)
  show ?thesis
  proof (cases "d \<le> td_hours 5")
    case True
    with assms d show ?thesis
      by (simp add: create_gap_block_def Let_def SESSION_DURATION_HOURS_def d_eq [symmetric])
  next
    case False
    with assms d obtain s where s: "dt_add last_activity (td_hours 5) = Inr s"
      by (auto simp: create_gap_block_def Let_def SESSION_DURATION_HOURS_def ebind_Inr_iff)
    then have "s = last_activity\<lparr>ticks := ticks last_activity + td_hours 5\<rparr>"
      by (auto dest: dt_add_Inr)
    with False assms d s show ?thesis
      by (simp add: create_gap_block_def Let_def SESSION_DURATION_HOURS_def d_eq [symmetric])
  qed
qed

lemma exceeds_ms:
  "total_seconds d * 1000 > of_int session_duration_ms \<longleftrightarrow> d > td_hours 5"
proof -
  have "total_seconds d * 1000 > of_int session_duration_ms
          \<longleftrightarrow> (of_int d :: rat) > of_int 18000000000"
    by (simp add: total_seconds_def session_duration_ms_def SESSION_DURATION_HOURS_def field_simps)
  also have "\<dots> \<longleftrightarrow> d > 18000000000"
    by (simp only: of_int_less_iff)
  finally show ?thesis
    by (simp add: td_hours_def)
qed

lemma segment_step_first:
  "current_block_start st = None \<Longrightarrow>
   segment_step now st entry =
     Inr (st\<lparr>current_block_start := Some (floor_to_hour (timestamp entry)),
             current_block_entries := [entry]\<rparr>)"
  by (simp add: segment_step_def)

lemma segment_step_open:
  assumes step: "segment_step now st entry = Inr st'"
    and start: "current_block_start st = Some start"
    and ne: "current_block_entries st \<noteq> []"
  shows
    "if utc_ticks (timestamp entry) - utc_ticks start > td_hours 5
        \<or> utc_ticks (timestamp entry) - utc_ticks (timestamp (last (current_block_entries st)))
            > td_hours 5
     then
       (\<exists>block. create_block start (current_block_entries st) now = Inr block
          \<and> (if utc_ticks (timestamp entry)
                   - utc_ticks (timestamp (last (current_block_entries st))) > td_hours 5
              then \<exists>gap. blocks st' = blocks st @ [block, gap]
                     \<and> sb_is_gap gap
                     \<and> sb_start_time gap =
                         (timestamp (last (current_block_entries st)))
                           \<lparr>ticks := ticks (timestamp (last (current_block_entries st)))
                                      + td_hours 5\<rparr>
                     \<and> sb_end_time gap = timestamp entry
              else blocks st' = blocks st @ [block]))
       \<and> current_block_start st' = Some (floor_to_hour (timestamp entry))
       \<and> current_block_entries st' = [entry]
     else
       blocks st' = blocks st
       \<and> current_block_start st' = Some start
       \<and> current_block_entries st' = current_block_entries st @ [entry]"
proof -
  let ?prev = "timestamp (last (current_block_entries st))"
  let ?t = "timestamp entry"
  from step start ne obtain d1 d2 where
    d1: "dt_sub ?t start = Inr d1" and d2: "dt_sub ?t ?prev = Inr d2"
    by (auto simp: segment_step_def ebind_Inr_iff Let_def)
  have e1: "d1 = utc_ticks ?t - utc_ticks start" and e2: "d2 = utc_ticks ?t - utc_ticks ?prev"
    using d1 d2 by (auto dest: dt_sub_Inr)
  show ?thesis
  proof (cases "d1 > td_hours 5 \<or> d2 > td_hours 5")
    case False
    with step start ne d1 d2 have "st' = st\<lparr>current_block_entries := current_block_entries st @ [entry]\<rparr>"
      by (auto simp: segment_step_def Let_def exceeds_ms)
    with False show ?thesis
      by (simp add: e1 [symmetric] e2 [symmetric] start)
  next
    case True
    with step start ne d1 d2 obtain block gap where
      block: "create_block start (current_block_entries st) now = Inr block"
      and gap: "(if d2 > td_hours 5
                 then ebind (create_gap_block ?prev ?t) (\<lambda>gap_block.
                        Inr (case gap_block of None \<Rightarrow> [] | Some g \<Rightarrow> [g]))
                 else Inr []) = Inr gap"
      and st': "st' = \<lparr>blocks = blocks st @ [block] @ gap,
                 current_block_start = Some (floor_to_hour ?t),
                 current_block_entries = [entry]\<rparr>"
      by (auto simp: segment_step_def Let_def exceeds_ms ebind_Inr_iff)
    show ?thesis
    proof (cases "d2 > td_hours 5")
      case False
      with gap have "gap = []" by simp
      with True False block show ?thesis
        by (simp add: e1 [symmetric] e2 [symmetric] st')
    next
      case d2: True
      with gap obtain g where g: "create_gap_block ?prev ?t = Inr g"
        and gap_eq: "gap = (case g of None \<Rightarrow> [] | Some g \<Rightarrow> [g])"
        by (auto simp: ebind_Inr_iff)
      from create_gap_block_Inr [OF g] d2 obtain gb where
        "g = Some gb" "sb_is_gap gb" "sb_end_time gb = ?t"
        "sb_start_time gb = ?prev\<lparr>ticks := ticks ?prev + td_hours 5\<rparr>"
        by (simp add: e2 [symmetric])
      with True d2 block gap_eq show ?thesis
        by (simp add: e1 [symmetric] e2 [symmetric] st')
    qed
  qed
qed

text \<open>
  Claim C3. One turn of the segmenter's loop, on a state with an open block (start
  \<open>start\<close>, at least one entry) and the next entry of a sorted sequence: the current
  block is closed exactly when the time from the block's start to the entry exceeds 5
  hours or the time from the previous entry to the entry exceeds 5 hours; a gap block
  from the previous entry's time plus 5 hours to the entry's time is emitted after it
  if and only if the time since the previous entry exceeds 5 hours; the new block
  starts at the entry's timestamp floored to the hour; otherwise the entry is appended
  to the open block. With no open block the entry opens one at its floored hour. In
  particular, for every clock reading, entries at 00:00, 04:00 and 10:00 give exactly
  block 1 from 00:00 to 05:00 with actual end 04:00, a gap block from 09:00 to 10:00,
  and block 2 starting at 10:00.
\<close>

theorem segmenter_transitions:
  "(current_block_start st = None \<longrightarrow>
      segment_step now st entry =
        Inr (st\<lparr>current_block_start := Some (floor_to_hour (timestamp entry)),
                current_block_entries := [entry]\<rparr>))
   \<and> (\<forall>start st'.
        segment_step now st entry = Inr st' \<and> current_block_start st = Some start
        \<and> current_block_entries st \<noteq> [] \<longrightarrow>
        (if utc_ticks (timestamp entry) - utc_ticks start > td_hours 5
            \<or> utc_ticks (timestamp entry) - utc_ticks (timestamp (last (current_block_entries st)))
                > td_hours 5
         then
           (\<exists>block. create_block start (current_block_entries st) now = Inr block
              \<and> (if utc_ticks (timestamp entry)
                       - utc_ticks (timestamp (last (current_block_entries st))) > td_hours 5
                  then \<exists>gap. blocks st' = blocks st @ [block, gap]
                         \<and> sb_is_gap gap
                         \<and> sb_start_time gap =
                             (timestamp (last (current_block_entries st)))
                               \<lparr>ticks := ticks (timestamp (last (current_block_entries st)))
                                          + td_hours 5\<rparr>
                         \<and> sb_end_time gap = timestamp entry
                  else blocks st' = blocks st @ [block]))
           \<and> current_block_start st' = Some (floor_to_hour (timestamp entry))
           \<and> current_block_entries st' = [entry]
         else
           blocks st' = blocks st
           \<and> current_block_start st' = Some start
           \<and> current_block_entries st' = current_block_entries st @ [entry]))
   \<and> map_sum id (map (\<lambda>b. (sb_is_gap b, sb_start_time b, sb_end_time b, sb_actual_end_time b)))
        (identify_session_blocks clock gap_entries) =
      Inr [(False, utc_datetime midnight, utc_datetime (midnight + td_hours 5),
              Some (utc_datetime (midnight + td_hours 4))),
           (True, utc_datetime (midnight + td_hours 9), utc_datetime (midnight + td_hours 10), None),
           (False, utc_datetime (midnight + td_hours 10), utc_datetime (midnight + td_hours 15),
              Some (utc_datetime (midnight + td_hours 10)))]"
  using segment_step_first [of st now entry] segment_step_open [of now st entry] gap_example [of clock]
  by blast

lemma gap_step_ex:
  "\<exists>st'. segment_step (utc_datetime (midnight + td_hours 11))
      \<lparr>blocks = [], current_block_start = Some (utc_datetime midnight),
        current_block_entries = take 2 gap_entries\<rparr> (gap_entries ! 2) = Inr st'"
  by (simp add: gap_entries_def segment_step_def create_block_def create_gap_block_def
      project_block_def floor_to_hour_def session_duration_ms_def total_seconds_def py_truediv_def
      usage_at_def time_defs Let_def)

theorem segmenter_transitions_witness:
  "\<exists>st'. segment_step (utc_datetime (midnight + td_hours 11))
      \<lparr>blocks = [], current_block_start = Some (utc_datetime midnight),
        current_block_entries = take 2 gap_entries\<rparr> (gap_entries ! 2) = Inr st'
     \<and> map sb_is_gap (blocks st') = [False, True]
     \<and> map sb_start_time (blocks st') = [utc_datetime midnight, utc_datetime (midnight + td_hours 9)]
     \<and> map sb_end_time (blocks st') = [utc_datetime (midnight + td_hours 5), utc_datetime (midnight + td_hours 10)]
     \<and> current_block_start st' = Some (utc_datetime (midnight + td_hours 10))
     \<and> current_block_entries st' = [gap_entries ! 2]"
proof -
  let ?now = "utc_datetime (midnight + td_hours 11)"
  let ?st = "\<lparr>blocks = [], current_block_start = Some (utc_datetime midnight),
        current_block_entries = take 2 gap_entries\<rparr>"
  let ?e = "gap_entries ! 2"
  obtain st' where st': "segment_step ?now ?st ?e = Inr st'"
    using gap_step_ex by blast
  have start: "current_block_start ?st = Some (utc_datetime midnight)" by simp
  have ne: "current_block_entries ?st \<noteq> []" by (simp add: gap_entries_def)
  have last: "timestamp (last (current_block_entries ?st)) = utc_datetime (midnight + td_hours 4)"
    by (simp add: gap_entries_def usage_at_def)
  have t: "timestamp ?e = utc_datetime (midnight + td_hours 10)"
    by (simp add: gap_entries_def usage_at_def)
  have far: "utc_ticks (timestamp ?e) - utc_ticks (timestamp (last (current_block_entries ?st)))
               > td_hours 5"
    unfolding last t by (simp add: utc_ticks_def utc_datetime_def td_hours_def)
  from segmenter_transitions [of ?st ?now ?e] st' start ne
  have "if utc_ticks (timestamp ?e) - utc_ticks (utc_datetime midnight) > td_hours 5
            \<or> utc_ticks (timestamp ?e) - utc_ticks (timestamp (last (current_block_entries ?st)))
                > td_hours 5
         then
           (\<exists>block. create_block (utc_datetime midnight) (current_block_entries ?st) ?now = Inr block
              \<and> (if utc_ticks (timestamp ?e)
                       - utc_ticks (timestamp (last (current_block_entries ?st))) > td_hours 5
                  then \<exists>gap. blocks st' = blocks ?st @ [block, gap]
                         \<and> sb_is_gap gap
                         \<and> sb_start_time gap =
                             (timestamp (last (current_block_entries ?st)))
                               \<lparr>ticks := ticks (timestamp (last (current_block_entries ?st)))
                                          + td_hours 5\<rparr>
                         \<and> sb_end_time gap = timestamp ?e
                  else blocks st' = blocks ?st @ [block]))
           \<and> current_block_start st' = Some (floor_to_hour (timestamp ?e))
           \<and> current_block_entries st' = [?e]
         else
           blocks st' = blocks ?st
           \<and> current_block_start st' = Some (utc_datetime midnight)
           \<and> current_block_entries st' = current_block_entries ?st @ [?e]"
    by blast
  with far obtain block gap where
    block: "create_block (utc_datetime midnight) (current_block_entries ?st) ?now = Inr block"
    and bl: "blocks st' = [block, gap]" and gap: "sb_is_gap gap"
    and gs: "sb_start_time gap = (utc_datetime (midnight + td_hours 4))\<lparr>ticks := midnight + td_hours 4 + td_hours 5\<rparr>"
    and ge: "sb_end_time gap = utc_datetime (midnight + td_hours 10)"
    and cs: "current_block_start st' = Some (floor_to_hour (utc_datetime (midnight + td_hours 10)))"
    and ce: "current_block_entries st' = [?e]"
    unfolding last t by (auto simp: utc_datetime_def)
  from block have bf: "\<not> sb_is_gap block" "sb_start_time block = utc_datetime midnight"
    "sb_end_time block = utc_datetime (midnight + td_hours 5)"
    by (elim create_block_Inr, simp add: time_defs split: if_splits)+
  show ?thesis
    using st' bl gap gs ge cs ce bf
    by (auto simp: floor_to_hour_def utc_datetime_def midnight_def td_hours_def)
qed

section \<open>Properties of the loader\<close>

lemma ebind_InrE:
  assumes "ebind m f = Inr y"
  obtains x where "m = Inr x" and "f x = Inr y"
  using assms by (auto simp: ebind_Inr_iff)

lemma dict_get_Inr:
  "dict_get v key dflt = Inr x \<longleftrightarrow>
     (\<exists>members. v = JObject members
        \<and> x = (case map_of (rev members) key of None \<Rightarrow> dflt | Some y \<Rightarrow> y))"
  by (cases v) (auto simp: dict_get_def split: option.splits)

lemma parse_record_emits:
  assumes "parse_record fromisoformat project_folder stem obj = Inr (Some e)"
  shows "token_counts obj =
           Some [raw_input_tokens e, raw_output_tokens e,
                 raw_cache_creation_tokens e, raw_cache_read_tokens e]
         \<and> \<not> (eq_zero (raw_input_tokens e) \<and> eq_zero (raw_output_tokens e)
                \<and> eq_zero (raw_cache_creation_tokens e) \<and> eq_zero (raw_cache_read_tokens e))"
proof -
  from assms obtain type where
    r1: "(if type \<noteq> JString ''assistant'' then Inr None
          else
       ebind (dict_get obj ''message'' (JObject [])) (\<lambda>message.
       ebind (dict_get message ''usage'' (JObject [])) (\<lambda>usage.
       if \<not> truthy usage then Inr None
       else
         ebind (dict_get usage ''input_tokens'' (JInt 0)) (\<lambda>input_tokens'.
         ebind (dict_get usage ''output_tokens'' (JInt 0)) (\<lambda>output_tokens'.
         ebind (dict_get usage ''cache_creation_input_tokens'' (JInt 0)) (\<lambda>cache_creation.
         ebind (dict_get usage ''cache_read_input_tokens'' (JInt 0)) (\<lambda>cache_read.
         if eq_zero input_tokens' \<and> eq_zero output_tokens'
              \<and> eq_zero cache_creation \<and> eq_zero cache_read
         then Inr None
         else
           ebind (dict_get obj ''timestamp'' (JString [])) (\<lambda>timestamp_str.
           case (case timestamp_str of
                   JString t \<Rightarrow> fromisoformat (replace_Z t)
                 | _ \<Rightarrow> None) of
             None \<Rightarrow> Inr None
           | Some timestamp' \<Rightarrow>
               ebind (dict_get message ''model'' (JString ''unknown'')) (\<lambda>model'.
               ebind (dict_get obj ''costUSD'' JNull) (\<lambda>cost.
               ebind (dict_get obj ''sessionId'' JNull) (\<lambda>session.
               ebind (dict_get obj ''version'' JNull) (\<lambda>version'.
               Inr (Some
                 \<lparr>raw_timestamp = timestamp',
                  raw_input_tokens = input_tokens',
                  raw_output_tokens = output_tokens',
                  raw_cache_creation_tokens = cache_creation,
                  raw_cache_read_tokens = cache_read,
                  raw_cost_usd = cost,
                  raw_model = model',
                  raw_session_id = (if truthy session then session else JString stem),
                  raw_version = version',
                  raw_project_path = project_folder\<rparr>)))))))))))))
        = Inr (Some e)"
    unfolding parse_record_def by (rule ebind_InrE)
  then obtain message usage where
    message: "dict_get obj ''message'' (JObject []) = Inr message"
    and usage: "dict_get message ''usage'' (JObject []) = Inr usage"
    and r2: "(if \<not> truthy usage then Inr None
       else
         ebind (dict_get usage ''input_tokens'' (JInt 0)) (\<lambda>input_tokens'.
         ebind (dict_get usage ''output_tokens'' (JInt 0)) (\<lambda>output_tokens'.
         ebind (dict_get usage ''cache_creation_input_tokens'' (JInt 0)) (\<lambda>cache_creation.
         ebind (dict_get usage ''cache_read_input_tokens'' (JInt 0)) (\<lambda>cache_read.
         if eq_zero input_tokens' \<and> eq_zero output_tokens'
              \<and> eq_zero cache_creation \<and> eq_zero cache_read
         then Inr None
         else
           ebind (dict_get obj ''timestamp'' (JString [])) (\<lambda>timestamp_str.
           case (case timestamp_str of
                   JString t \<Rightarrow> fromisoformat (replace_Z t)
                 | _ \<Rightarrow> None) of
             None \<Rightarrow> Inr None
           | Some timestamp' \<Rightarrow>
               ebind (dict_get message ''model'' (JString ''unknown'')) (\<lambda>model'.
               ebind (dict_get obj ''costUSD'' JNull) (\<lambda>cost.
               ebind (dict_get obj ''sessionId'' JNull) (\<lambda>session.
               ebind (dict_get obj ''version'' JNull) (\<lambda>version'.
               Inr (Some
                 \<lparr>raw_timestamp = timestamp',
                  raw_input_tokens = input_tokens',
                  raw_output_tokens = output_tokens',
                  raw_cache_creation_tokens = cache_creation,
                  raw_cache_read_tokens = cache_read,
                  raw_cost_usd = cost,
                  raw_model = model',
                  raw_session_id = (if truthy session then session else JString stem),
                  raw_version = version',
                  raw_project_path = project_folder\<rparr>)))))))))))
        = Inr (Some e)"
    by (cases "type \<noteq> JString ''assistant''") (auto elim!: ebind_InrE)
  then obtain i out c r where
    i: "dict_get usage ''input_tokens'' (JInt 0) = Inr i"
    and out: "dict_get usage ''output_tokens'' (JInt 0) = Inr out"
    and c: "dict_get usage ''cache_creation_input_tokens'' (JInt 0) = Inr c"
    and r: "dict_get usage ''cache_read_input_tokens'' (JInt 0) = Inr r"
    and r3: "(if eq_zero i \<and> eq_zero out \<and> eq_zero c \<and> eq_zero r
         then Inr None
         else
           ebind (dict_get obj ''timestamp'' (JString [])) (\<lambda>timestamp_str.
           case (case timestamp_str of
                   JString t \<Rightarrow> fromisoformat (replace_Z t)
                 | _ \<Rightarrow> None) of
             None \<Rightarrow> Inr None
           | Some timestamp' \<Rightarrow>
               ebind (dict_get message ''model'' (JString ''unknown'')) (\<lambda>model'.
               ebind (dict_get obj ''costUSD'' JNull) (\<lambda>cost.
               ebind (dict_get obj ''sessionId'' JNull) (\<lambda>session.
               ebind (dict_get obj ''version'' JNull) (\<lambda>version'.
               Inr (Some
                 \<lparr>raw_timestamp = timestamp',
                  raw_input_tokens = i,
                  raw_output_tokens = out,
                  raw_cache_creation_tokens = c,
                  raw_cache_read_tokens = r,
                  raw_cost_usd = cost,
                  raw_model = model',
                  raw_session_id = (if truthy session then session else JString stem),
                  raw_version = version',
                  raw_project_path = project_folder\<rparr>)))))))
        = Inr (Some e)"
    by (cases "truthy usage") (auto elim!: ebind_InrE)
  have nz: "\<not> (eq_zero i \<and> eq_zero out \<and> eq_zero c \<and> eq_zero r)"
    using r3 by (auto split: if_splits)
  with r3 obtain timestamp_str where
    r4: "(case (case timestamp_str of
                   JString t \<Rightarrow> fromisoformat (replace_Z t)
                 | _ \<Rightarrow> None) of
             None \<Rightarrow> Inr None
           | Some timestamp' \<Rightarrow>
               ebind (dict_get message ''model'' (JString ''unknown'')) (\<lambda>model'.
               ebind (dict_get obj ''costUSD'' JNull) (\<lambda>cost.
               ebind (dict_get obj ''sessionId'' JNull) (\<lambda>session.
               ebind (dict_get obj ''version'' JNull) (\<lambda>version'.
               Inr (Some
                 \<lparr>raw_timestamp = timestamp',
                  raw_input_tokens = i,
                  raw_output_tokens = out,
                  raw_cache_creation_tokens = c,
                  raw_cache_read_tokens = r,
                  raw_cost_usd = cost,
                  raw_model = model',
                  raw_session_id = (if truthy session then session else JString stem),
                  raw_version = version',
                  raw_project_path = project_folder\<rparr>))))))
        = Inr (Some e)"
    by (auto elim!: ebind_InrE)
  then obtain ts where
    "ebind (dict_get message ''model'' (JString ''unknown'')) (\<lambda>model'.
               ebind (dict_get obj ''costUSD'' JNull) (\<lambda>cost.
               ebind (dict_get obj ''sessionId'' JNull) (\<lambda>session.
               ebind (dict_get obj ''version'' JNull) (\<lambda>version'.
               Inr (Some
                 \<lparr>raw_timestamp = ts,
                  raw_input_tokens = i,
                  raw_output_tokens = out,
                  raw_cache_creation_tokens = c,
                  raw_cache_read_tokens = r,
                  raw_cost_usd = cost,
                  raw_model = model',
                  raw_session_id = (if truthy session then session else JString stem),
                  raw_version = version',
                  raw_project_path = project_folder\<rparr>)))))
        = Inr (Some e)"
    by (cases "case timestamp_str of JString t \<Rightarrow> fromisoformat (replace_Z t) | _ \<Rightarrow> None") auto
  then have fields: "raw_input_tokens e = i" "raw_output_tokens e = out"
    "raw_cache_creation_tokens e = c" "raw_cache_read_tokens e = r"
    by (auto elim!: ebind_InrE)
  from usage i obtain um where um: "usage = JObject um"
    by (auto simp: dict_get_Inr)
  have "ebind (dict_get obj ''message'' (JObject []))
          (\<lambda>message. dict_get message ''usage'' (JObject [])) = Inr (JObject um)"
    using message usage um by (simp add: ebind_def)
  then have "token_counts obj =
      Some (map (\<lambda>key. case map_of (rev um) key of None \<Rightarrow> JInt 0 | Some x \<Rightarrow> x)
              [''input_tokens'', ''output_tokens'',
               ''cache_creation_input_tokens'', ''cache_read_input_tokens''])"
    by (simp add: token_counts_def)
  moreover have
    "i = (case map_of (rev um) ''input_tokens'' of None \<Rightarrow> JInt 0 | Some x \<Rightarrow> x)"
    "out = (case map_of (rev um) ''output_tokens'' of None \<Rightarrow> JInt 0 | Some x \<Rightarrow> x)"
    "c = (case map_of (rev um) ''cache_creation_input_tokens'' of None \<Rightarrow> JInt 0 | Some x \<Rightarrow> x)"
    "r = (case map_of (rev um) ''cache_read_input_tokens'' of None \<Rightarrow> JInt 0 | Some x \<Rightarrow> x)"
    using i out c r unfolding um by (simp_all add: dict_get_Inr)
  ultimately have "token_counts obj = Some [i, out, c, r]"
    by simp
  with nz fields show ?thesis
    by simp
qed

lemma dict_get_JObject:
  "dict_get (JObject members) key dflt =
     Inr (case map_of (rev members) key of None \<Rightarrow> dflt | Some x \<Rightarrow> x)"
  by (simp add: dict_get_def split: option.splits)

lemma parse_record_zero:
  assumes "all_counts_zero obj"
  shows "parse_record fromisoformat project_folder stem obj = Inr None"
proof -
  from assms obtain um where
    u: "ebind (dict_get obj ''message'' (JObject []))
          (\<lambda>message. dict_get message ''usage'' (JObject [])) = Inr (JObject um)"
    and z: "list_all eq_zero
       (map (\<lambda>key. case map_of (rev um) key of None \<Rightarrow> JInt 0 | Some x \<Rightarrow> x)
              [''input_tokens'', ''output_tokens'',
               ''cache_creation_input_tokens'', ''cache_read_input_tokens''])"
    by (auto simp: all_counts_zero_def token_counts_def split: option.splits sum.splits json.splits)
  from u obtain message where
    message: "dict_get obj ''message'' (JObject []) = Inr message"
    and usage: "dict_get message ''usage'' (JObject []) = Inr (JObject um)"
    by (rule ebind_InrE)
  from message obtain type where type: "dict_get obj ''type'' JNull = Inr type"
    by (auto simp: dict_get_Inr)
  show ?thesis
    using z by (simp add: parse_record_def type message usage ebind_def dict_get_JObject)
qed

lemma parse_lines_set:
  "e \<in> set (parse_lines json_loads fromisoformat project_folder stem entries ls) \<Longrightarrow>
     e \<in> set entries
     \<or> (\<exists>l\<in>set ls. \<exists>obj. json_loads (strip l) = Some obj
           \<and> parse_record fromisoformat project_folder stem obj = Inr (Some e))"
proof (induction ls arbitrary: entries)
  case Nil
  then show ?case by simp
next
  case (Cons l ls)
  show ?case
  proof (cases "strip l = []")
    case True
    with Cons.prems have "e \<in> set (parse_lines json_loads fromisoformat project_folder stem entries ls)"
      by simp
    from Cons.IH [OF this] show ?thesis by auto
  next
    case False
    show ?thesis
    proof (cases "json_loads (strip l)")
      case None
      with False Cons.prems
      have "e \<in> set (parse_lines json_loads fromisoformat project_folder stem entries ls)"
        by simp
      from Cons.IH [OF this] show ?thesis by auto
    next
      case (Some obj)
      show ?thesis
      proof (cases "parse_record fromisoformat project_folder stem obj")
        case (Inl err)
        with False Some Cons.prems show ?thesis by simp
      next
        case (Inr res)
        show ?thesis
        proof (cases res)
          case None
          with Inr False Some Cons.prems
          have "e \<in> set (parse_lines json_loads fromisoformat project_folder stem entries ls)"
            by simp
          from Cons.IH [OF this] show ?thesis by auto
        next
          case (Some entry)
          with Inr False \<open>json_loads (strip l) = Some obj\<close> Cons.prems
          have "e \<in> set (parse_lines json_loads fromisoformat project_folder stem
                            (entries @ [entry]) ls)"
            by simp
          from Cons.IH [OF this] Some Inr \<open>json_loads (strip l) = Some obj\<close> show ?thesis
            by auto
        qed
      qed
    qed
  qed
qed

text \<open>
  Claim C6. For every input log record, the loader emits an entry only if at least one
  of the four token counts (input, output, cache-creation, cache-read) is non-zero, and
  the entry carries these counts; a record whose four token counts are all zero is
  discarded; so every entry of a loaded file has a non-zero count, and loading a file
  in which every record that decodes has four zero counts yields the empty list.
\<close>

theorem loader_discards_zero_token_records:
  "(\<forall>e. parse_record fromisoformat project_folder stem obj = Inr (Some e) \<longrightarrow>
        token_counts obj =
           Some [raw_input_tokens e, raw_output_tokens e,
                 raw_cache_creation_tokens e, raw_cache_read_tokens e]
        \<and> \<not> (eq_zero (raw_input_tokens e) \<and> eq_zero (raw_output_tokens e)
               \<and> eq_zero (raw_cache_creation_tokens e) \<and> eq_zero (raw_cache_read_tokens e)))
   \<and> (all_counts_zero obj \<longrightarrow>
        parse_record fromisoformat project_folder stem obj = Inr None)
   \<and> (\<forall>e\<in>set (parse_usage_from_jsonl json_loads fromisoformat filepath).
        \<not> (eq_zero (raw_input_tokens e) \<and> eq_zero (raw_output_tokens e)
            \<and> eq_zero (raw_cache_creation_tokens e) \<and> eq_zero (raw_cache_read_tokens e)))
   \<and> ((\<forall>ls. file_lines filepath = Some ls \<longrightarrow>
          (\<forall>l\<in>set ls. \<forall>r. json_loads (strip l) = Some r \<longrightarrow> all_counts_zero r))
        \<longrightarrow> parse_usage_from_jsonl json_loads fromisoformat filepath = [])"
proof (intro conjI allI impI ballI)
  fix e
  assume "parse_record fromisoformat project_folder stem obj = Inr (Some e)"
  from parse_record_emits [OF this]
  show "token_counts obj =
           Some [raw_input_tokens e, raw_output_tokens e,
                 raw_cache_creation_tokens e, raw_cache_read_tokens e]"
    and "\<not> (eq_zero (raw_input_tokens e) \<and> eq_zero (raw_output_tokens e)
               \<and> eq_zero (raw_cache_creation_tokens e) \<and> eq_zero (raw_cache_read_tokens e))"
    by simp_all
next
  assume "all_counts_zero obj"
  then show "parse_record fromisoformat project_folder stem obj = Inr None"
    by (rule parse_record_zero)
next
  fix e
  assume "e \<in> set (parse_usage_from_jsonl json_loads fromisoformat filepath)"
  then obtain ls where "file_lines filepath = Some ls"
    and "e \<in> set (parse_lines json_loads fromisoformat (parent_name filepath) (file_stem filepath) [] ls)"
    by (cases "file_lines filepath") (auto simp: parse_usage_from_jsonl_def)
  from parse_lines_set [OF this(2)] obtain obj' where
    "parse_record fromisoformat (parent_name filepath) (file_stem filepath) obj' = Inr (Some e)"
    by auto
  from parse_record_emits [OF this]
  show "\<not> (eq_zero (raw_input_tokens e) \<and> eq_zero (raw_output_tokens e)
            \<and> eq_zero (raw_cache_creation_tokens e) \<and> eq_zero (raw_cache_read_tokens e))"
    by simp
next
  assume zero: "\<forall>ls. file_lines filepath = Some ls \<longrightarrow>
          (\<forall>l\<in>set ls. \<forall>r. json_loads (strip l) = Some r \<longrightarrow> all_counts_zero r)"
  show "parse_usage_from_jsonl json_loads fromisoformat filepath = []"
  proof (cases "file_lines filepath")
    case None
    then show ?thesis by (simp add: parse_usage_from_jsonl_def)
  next
    case (Some ls)
    have none: "e \<notin> set (parse_lines json_loads fromisoformat (parent_name filepath)
                          (file_stem filepath) [] ls)" for e
    proof
      assume "e \<in> set (parse_lines json_loads fromisoformat (parent_name filepath)
                          (file_stem filepath) [] ls)"
      from parse_lines_set [OF this] obtain l obj' where
        "l \<in> set ls" "json_loads (strip l) = Some obj'"
        "parse_record fromisoformat (parent_name filepath) (file_stem filepath) obj' = Inr (Some e)"
        by auto
      with zero Some parse_record_zero [of obj' fromisoformat "parent_name filepath" "file_stem filepath"]
      show False by auto
    qed
    have "parse_lines json_loads fromisoformat (parent_name filepath) (file_stem filepath) [] ls = []"
    proof (cases "parse_lines json_loads fromisoformat (parent_name filepath) (file_stem filepath) [] ls")
      case Nil
      then show ?thesis .
    next
      case (Cons e es)
      with none [of e] show ?thesis by simp
    qed
    with Some show ?thesis
      by (simp add: parse_usage_from_jsonl_def)
  qed
qed

lemma zero_record: "all_counts_zero (sample_record 0)"
  by (simp add: all_counts_zero_def token_counts_def sample_record_def dict_get_def ebind_def
      eq_zero_def)

lemma used_record:
  "map_sum id (map_option raw_input_tokens)
     (parse_record sample_fromisoformat ''proj'' ''s1'' (sample_record 12)) = Inr (Some (JInt 12))"
  by (simp add: parse_record_def sample_record_def dict_get_def ebind_def
      eq_zero_def truthy_def replace_Z_def sample_fromisoformat_def)

lemma strip_samples: "strip ''zero'' = ''zero''" "strip ''used'' = ''used''" "strip '' zero  '' = ''zero''"
  "strip ''  '' = []" "strip ''{broken'' = ''{broken''"
  by (simp_all add: strip_def is_space_def)

theorem loader_discards_zero_token_records_witness:
  "parse_usage_from_jsonl sample_loads sample_fromisoformat
      (sample_file [''zero'', ''  '', ''{broken'', '' zero  '']) = []
   \<and> map raw_input_tokens
       (parse_usage_from_jsonl sample_loads sample_fromisoformat
          (sample_file [''zero'', ''used'', ''{broken'', '' zero  ''])) = [JInt 12]
   \<and> all_counts_zero (sample_record 0)
   \<and> \<not> eq_zero (JInt 12)"
proof -
  let ?F = "sample_file [''zero'', ''  '', ''{broken'', '' zero  '']"
  let ?G = "sample_file [''zero'', ''used'', ''{broken'', '' zero  '']"
  have zero: "\<forall>ls. file_lines ?F = Some ls \<longrightarrow>
          (\<forall>l\<in>set ls. \<forall>r. sample_loads (strip l) = Some r \<longrightarrow> all_counts_zero r)"
    using zero_record by (auto simp: sample_file_def sample_loads_def strip_samples)
  have 1: "parse_usage_from_jsonl sample_loads sample_fromisoformat ?F = []"
    using loader_discards_zero_token_records
      [of sample_fromisoformat "''proj''" "''s1''" "sample_record 0" sample_loads ?F] zero
    by blast
  have z: "parse_record sample_fromisoformat ''proj'' ''s1'' (sample_record 0) = Inr None"
    using loader_discards_zero_token_records
      [of sample_fromisoformat "''proj''" "''s1''" "sample_record 0" sample_loads ?F] zero_record
    by blast
  obtain e where e: "parse_record sample_fromisoformat ''proj'' ''s1'' (sample_record 12) = Inr (Some e)"
    and i: "raw_input_tokens e = JInt 12"
    using used_record
    by (cases "parse_record sample_fromisoformat ''proj'' ''s1'' (sample_record 12)") auto
  have 2: "map raw_input_tokens
       (parse_usage_from_jsonl sample_loads sample_fromisoformat ?G) = [JInt 12]"
    by (simp add: parse_usage_from_jsonl_def sample_file_def strip_samples sample_loads_def z e i)
  show ?thesis
    using 1 2 zero_record by (simp add: eq_zero_def)
qed

section \<open>Properties of the per-session summary cache\<close>

text \<open>
  Claim C7. For every stored per-session cache entry \<open>c\<close> with key
  \<open>(session_id, project_folder)\<close> (the one row the query selects; its \<open>cached_at\<close> is a
  naive datetime, as the table stores it): the cached summary is returned if and only
  if \<open>now - cached_at \<le> 5\<close> minutes and the live source file exists and its hash equals
  the stored hash; in every other case nothing is returned. The hash of a file is a
  function of its size and its modification time only: two files that agree on both
  have the same hash, whatever their content.
\<close>

theorem cached_summary_valid_iff:
  assumes stored: "filter (\<lambda>r. sc_session_id r = sid \<and> sc_project_folder r = folder) rows = [c]"
    and naive: "utcoffset (sc_cached_at c) = None"
  shows "get_cached_summary md5 fs utcnow (Some rows) sid folder =
      (if utcnow - ticks (sc_cached_at c) \<le> td_minutes 5
          \<and> (\<exists>f. fs (folder, sid @ ''.jsonl'') = Some f
                 \<and> md5 (st_size f) (st_mtime f) = sc_file_hash c)
       then Inr (Some (summary_of c)) else Inr None)
     \<and> (st_size f1 = st_size f2 \<and> st_mtime f1 = st_mtime f2
          \<longrightarrow> get_file_hash md5 f1 = get_file_hash md5 f2)"
  using stored naive
  by (auto simp: get_cached_summary_def scalar_one_or_none_def ebind_def dt_sub_def
      CACHE_TTL_MINUTES_def get_file_hash_def summary_of_def split: option.splits)

lemma sample_stored:
  "filter (\<lambda>r. sc_session_id r = ''s1'' \<and> sc_project_folder r = ''proj'')
     [sample_row\<lparr>sc_session_id := ''s2''\<rparr>, sample_row] = [sample_row]"
  by (simp add: sample_row_def)

lemma sample_naive: "utcoffset (sc_cached_at sample_row) = None"
  by (simp add: sample_row_def)

theorem cached_summary_valid_iff_witness:
  "get_cached_summary toy_md5 (sample_fs 100) (midnight + td_hours 10 + td_minutes 5)
      (Some [sample_row\<lparr>sc_session_id := ''s2''\<rparr>, sample_row]) ''s1'' ''proj''
     = Inr (Some (summary_of sample_row))
   \<and> get_cached_summary toy_md5 (sample_fs 100) (midnight + td_hours 10 + td_minutes 5 + 1)
      (Some [sample_row\<lparr>sc_session_id := ''s2''\<rparr>, sample_row]) ''s1'' ''proj''
     = Inr None
   \<and> get_cached_summary toy_md5 (sample_fs 101) (midnight + td_hours 10 + td_minutes 5)
      (Some [sample_row\<lparr>sc_session_id := ''s2''\<rparr>, sample_row]) ''s1'' ''proj''
     = Inr None"
proof -
  let ?rows = "[sample_row\<lparr>sc_session_id := ''s2''\<rparr>, sample_row]"
  have hash: "toy_md5 100 7 = sc_file_hash sample_row" "toy_md5 101 7 \<noteq> sc_file_hash sample_row"
    by (simp_all add: sample_row_def toy_md5_def str4_def digit_char_def)
  have at: "ticks (sc_cached_at sample_row) = midnight + td_hours 10"
    by (simp add: sample_row_def)
  have 1: "get_cached_summary toy_md5 (sample_fs 100) (midnight + td_hours 10 + td_minutes 5)
      (Some ?rows) ''s1'' ''proj'' = Inr (Some (summary_of sample_row))"
    using cached_summary_valid_iff [OF sample_stored sample_naive, of toy_md5 "sample_fs 100"
        "midnight + td_hours 10 + td_minutes 5"] hash
    by (simp add: at sample_fs_def td_minutes_def)
  have 2: "get_cached_summary toy_md5 (sample_fs 100) (midnight + td_hours 10 + td_minutes 5 + 1)
      (Some ?rows) ''s1'' ''proj'' = Inr None"
    using cached_summary_valid_iff [OF sample_stored sample_naive, of toy_md5 "sample_fs 100"
        "midnight + td_hours 10 + td_minutes 5 + 1"]
    by (simp add: at td_minutes_def)
  have 3: "get_cached_summary toy_md5 (sample_fs 101) (midnight + td_hours 10 + td_minutes 5)
      (Some ?rows) ''s1'' ''proj'' = Inr None"
    using cached_summary_valid_iff [OF sample_stored sample_naive, of toy_md5 "sample_fs 101"
        "midnight + td_hours 10 + td_minutes 5"] hash
    by (simp add: at sample_fs_def td_minutes_def)
  show ?thesis
    using 1 2 3 by simp
qed


section \<open>Properties of the public queries\<close>

lemma strptime_2025_01_15:
  "strptime_Ymd ''2025-01-15'' = Inr \<lparr>ticks = midnight, utcoffset = None\<rparr>"
  by (simp add: strptime_Ymd_def match_month_def match_day_def is_digit_def in_range_def
      digit_val_def days_in_month_def ymd2ord_def days_before_year_def days_before_month_def
      is_leap_def upto.simps midnight_def)

text \<open>
  Claim C9 fails on the code for entries with timezone-aware timestamps, which is what
  the loader yields for a log line whose timestamp ends in \<^verbatim>\<open>Z\<close>: \<^verbatim>\<open>strptime\<close> returns a
  naive datetime, and ordering the entry's aware timestamp against it raises
  \<^verbatim>\<open>TypeError\<close>. Evaluated here for an entry of 2025-01-15T10:00:00Z with
  \<open>end_date\<close>, and with \<open>start_date\<close>, \<^verbatim>\<open>2025-01-15\<close>: no entry is included, the call raises.
\<close>

theorem daily_filter_raises_on_aware_timestamps:
  "get_daily_usage [usage_at (midnight + td_hours 10) ''claude-opus-4-20250514'' 150000 ''s1'']
      None (Some ''2025-01-15'') = Inl TypeError
   \<and> get_daily_usage [usage_at (midnight + td_hours 10) ''claude-opus-4-20250514'' 150000 ''s1'']
      (Some ''2025-01-15'') None = Inl TypeError"
  by (simp add: get_daily_usage_def strptime_2025_01_15 dt_add_def dt_less_def dt_ge_def
      usage_at_def utc_datetime_def td_days_def MAX_TICKS_def midnight_def ebind_def)

lemma efilter_total:
  "(\<forall>x\<in>set xs. P x = Inr (Q x)) \<Longrightarrow> efilter P xs = Inr (filter Q xs)"
  by (induction xs) (simp_all add: ebind_def)

text \<open>
  On naive timestamps the filter is the one the claim describes: the entries strictly
  before the start of the day after \<open>end_date\<close>.
\<close>

lemma daily_filter_on_naive_timestamps:
  assumes naive: "\<forall>e\<in>set entries. utcoffset (timestamp e) = None"
    and day: "strptime_Ymd end_date = Inr day" and nonempty: "end_date \<noteq> []"
    and range: "dt_add day (td_days 1) = Inr end_dt"
  shows "map_sum id dr_data (get_daily_usage entries None (Some end_date))
           = Inr (aggregate_by_daily (filter (\<lambda>e. ticks (timestamp e) < ticks day + td_days 1) entries))"
proof -
  have d: "utcoffset day = None"
    using day by (auto simp: strptime_Ymd_def Let_def split: list.splits if_splits option.splits)
  have e: "end_dt = day\<lparr>ticks := ticks day + td_days 1\<rparr>"
    using range by (auto simp: dt_add_def Let_def split: if_splits)
  have "efilter (\<lambda>e. dt_less (timestamp e) end_dt) entries
          = Inr (filter (\<lambda>e. ticks (timestamp e) < ticks day + td_days 1) entries)"
    using naive d by (intro efilter_total) (simp add: dt_less_def e)
  then show ?thesis
    using day nonempty range by (simp add: get_daily_usage_def Let_def)
qed

lemma length_first_occurrences: "length (first_occurrences xs) = card (set xs)"
  using distinct_card [OF distinct_first_occurrences, of xs] by simp

lemma length_sort_desc_stable [simp]: "length (sort_desc_stable key xs) = length xs"
  by (simp add: sort_desc_stable_def)

lemma aggregate_by_session_length:
  assumes "aggregate_by_session entries = Inr rows"
  shows "length rows = card (session_key ` set entries)"
proof -
  from assms obtain ys where
    ys: "emap session_row (group_by session_key entries) = Inr ys"
    and rows: "rows = sort_desc_stable su_last_activity ys"
    by (auto simp: aggregate_by_session_def ebind_Inr_iff)
  from emap_Inr_length [OF ys] rows show ?thesis
    by (simp add: group_by_eq length_first_occurrences)
qed

text \<open>
  Claim C10. For every entry list and every limit for which \<open>get_session_usage\<close>
  returns: \<open>total\<close> is the number of all distinct \<open>project_path:session_id\<close> keys of the
  entries, the returned rows are \<^verbatim>\<open>sessions[:limit]\<close> of all session rows (the first
  \<open>limit\<close> rows for a limit that is not negative), and the token totals and the total
  cost are sums over the returned rows only: a session cut off by the limit counts in
  \<open>total\<close> and not in the totals.
\<close>

theorem session_usage_total_and_totals:
  assumes "get_session_usage entries limit = Inr r"
  shows "sr_total r = int (card (session_key ` set entries))
    \<and> (\<exists>all_rows. aggregate_by_session entries = Inr all_rows
         \<and> sr_data r = slice_to limit all_rows
         \<and> (0 \<le> limit \<longrightarrow> sr_data r = take (nat limit) all_rows))
    \<and> sr_totals r =
        \<lparr>tc_input_tokens = sum_list (map su_input_tokens (sr_data r)),
         tc_output_tokens = sum_list (map su_output_tokens (sr_data r)),
         tc_cache_creation_tokens = sum_list (map su_cache_creation_tokens (sr_data r)),
         tc_cache_read_tokens = sum_list (map su_cache_read_tokens (sr_data r))\<rparr>
    \<and> sr_total_cost r = sum_list (map su_total_cost (sr_data r))"
proof -
  from assms obtain all_rows where
    a: "aggregate_by_session entries = Inr all_rows"
    and r: "r = \<lparr>sr_data = slice_to limit all_rows,
             sr_totals =
               \<lparr>tc_input_tokens = py_sum (map su_input_tokens (slice_to limit all_rows)),
                tc_output_tokens = py_sum (map su_output_tokens (slice_to limit all_rows)),
                tc_cache_creation_tokens = py_sum (map su_cache_creation_tokens (slice_to limit all_rows)),
                tc_cache_read_tokens = py_sum (map su_cache_read_tokens (slice_to limit all_rows))\<rparr>,
             sr_total_cost = py_sum (map su_total_cost (slice_to limit all_rows)),
             sr_total = int (length all_rows)\<rparr>"
    by (auto simp: get_session_usage_def ebind_Inr_iff Let_def)
  show ?thesis
    using a aggregate_by_session_length [OF a]
    by (simp add: r py_sum_eq slice_to_def)
qed

lemma sample_session_usage:
  "\<exists>r. get_session_usage sample_entries 1 = Inr r
      \<and> map su_session_id (sr_data r) = [''s2'']
      \<and> map su_input_tokens (sr_data r) = [1000]
      \<and> map su_total_cost (sr_data r) = [1 / 100]"
  by (simp add: get_session_usage_def slice_to_def
      aggregate_by_session_def group_by_def sample_entries_def straddling_entries_def
      sort_desc_stable_def session_row_def session_key_def format_opt_def split_colon_def
      max_by_timestamp_def max_step_def dt_less_def utc_datetime_def
      py_sum_def cost_150k usage_at_def calculate_entry_cost_def
      strftime_a [unfolded utc_datetime_def] strftime_b [unfolded utc_datetime_def]
      strftime_c [unfolded utc_datetime_def] less_eq_char_def less_char_def)

theorem session_usage_total_and_totals_witness:
  "\<exists>r. get_session_usage sample_entries 1 = Inr r
      \<and> sr_total r = 2
      \<and> map su_session_id (sr_data r) = [''s2'']
      \<and> tc_input_tokens (sr_totals r) = 1000
      \<and> sr_total_cost r = 1 / 100
      \<and> sum_list (map input_tokens sample_entries) = 301000"
proof -
  from sample_session_usage obtain r where
    all: "get_session_usage sample_entries 1 = Inr r
      \<and> map su_session_id (sr_data r) = [''s2'']
      \<and> map su_input_tokens (sr_data r) = [1000]
      \<and> map su_total_cost (sr_data r) = [1 / 100]" ..
  then have r: "get_session_usage sample_entries 1 = Inr r"
    and d: "map su_session_id (sr_data r) = [''s2'']"
      "map su_input_tokens (sr_data r) = [1000]" "map su_total_cost (sr_data r) = [1 / 100]"
    by simp_all
  have keys: "card (session_key ` set sample_entries) = 2"
    by (simp add: sample_entries_def straddling_entries_def usage_at_def session_key_def
        format_opt_def)
  from session_usage_total_and_totals [OF r] keys d
  have "sr_total r = 2" "tc_input_tokens (sr_totals r) = 1000" "sr_total_cost r = 1 / 100"
    by simp_all
  moreover have "sum_list (map input_tokens sample_entries) = 301000"
    by (simp add: sample_entries_def straddling_entries_def usage_at_def)
  ultimately have "get_session_usage sample_entries 1 = Inr r
      \<and> sr_total r = 2
      \<and> map su_session_id (sr_data r) = [''s2'']
      \<and> tc_input_tokens (sr_totals r) = 1000
      \<and> sr_total_cost r = 1 / 100
      \<and> sum_list (map input_tokens sample_entries) = 301000"
    using r d by simp
  then show ?thesis ..
qed


end
